theory Spec2Isabelle
  imports Main
begin

section \<open>Values of the platform\<close>

text \<open>
  The extension is TypeScript. Values are modelled at their declared TypeScript types; a
  promise is modelled by the way it completes: it resolves with a value, rejects with an
  error, or never settles.
\<close>

datatype ('a, 'e) completion = Returned 'a | Thrown 'e | Pending

text \<open>
  The object \<open>{ok, redirected, status, statusText, type, url, body, headers}\<close> that the
  content script relays back for a fetch. The body is kept at a type variable: the casts
  \<open>fetch<T>\<close> and \<open>as HttpResponse<T>\<close> of the source are unchecked.
\<close>

record 'b http_response =
  ok :: bool
  redirected :: bool
  status :: nat
  statusText :: string
  type :: string
  url :: string
  body :: 'b
  headers :: "(string \<times> string) list"

text \<open>The error classes imported by the sources, and the built-in ones they raise.\<close>

datatype error_kind =
    TypeError
  | Error
  | OriginMismatchError
  | ProtocolInsecureError
  | ServerRejectedError
  | MissingParameterError
  | CertificateChangedError
  | TlsConnectionBrokenError
  | TlsConnectionInsecureError
  | TlsConnectionWeakError
  | UserTimeoutError
  | ServerTimeoutError

text \<open>
  An error object: its class, the message given to the constructor (\<open>None\<close> when the
  constructor is called without one) and the \<open>response\<close> property that
  \<open>Object.assign\<close> adds in \<open>WebServerService.fetch\<close>.
\<close>

record 'b error =
  kind :: error_kind
  message :: "string option"
  response :: "'b http_response option"

definition new_error :: "error_kind \<Rightarrow> string option \<Rightarrow> 'b error" where
  "new_error k m = \<lparr>kind = k, message = m, response = None\<rparr>"

subsection \<open>Strings\<close>

definition toLowerChar :: "char \<Rightarrow> char" where
  "toLowerChar c =
     (case map_of (zip ''ABCDEFGHIJKLMNOPQRSTUVWXYZ'' ''abcdefghijklmnopqrstuvwxyz'') c of
        Some l \<Rightarrow> l
      | None \<Rightarrow> c)"

text \<open>\<open>String.prototype.toLocaleLowerCase\<close>, on the ASCII letters.\<close>

definition toLocaleLowerCase :: "string \<Rightarrow> string" where
  "toLocaleLowerCase s = map toLowerChar s"

definition startsWith :: "string \<Rightarrow> string \<Rightarrow> bool" where
  "startsWith s p = (take (length p) s = p)"

text \<open>JavaScript truthiness of a value of type \<open>string | undefined\<close>.\<close>

definition truthy :: "string option \<Rightarrow> bool" where
  "truthy v = (case v of None \<Rightarrow> False | Some s \<Rightarrow> s \<noteq> [])"

text \<open>A value of type \<open>string | undefined\<close> inside a template literal.\<close>

definition template :: "string option \<Rightarrow> string" where
  "template v = (case v of None \<Rightarrow> ''undefined'' | Some s \<Rightarrow> s)"

subsection \<open>The URL class\<close>

text \<open>
  The sources read two properties of a \<open>URL\<close> object. The constructor
  \<open>new URL(url, base)\<close> belongs to the platform; the functions below take it as the
  parameter \<open>URL\<close>, which answers \<open>None\<close> where the constructor throws a TypeError.
\<close>

record url_object =
  href :: string
  origin :: string

type_synonym URL_constructor = "string \<Rightarrow> string option \<Rightarrow> url_object option"

text \<open>
  A reference constructor, used where a concrete platform is needed. It covers a
  fragment of the URL syntax, on which it computes what the platform constructor
  computes:
  \<^item> absolute URLs \<open>http://host/path?query#fragment\<close> and \<open>https://...\<close>, with scheme
    and host in any letter case, the path, the query and the fragment optional;
  \<^item> with a base of that form, the relative references: the empty string, a fragment,
    a query, \<open>//host/path\<close>, a path starting with one slash and a path relative to the
    directory of the base path, each with an optional query and fragment.

  No port, no credentials, no dot segments, no other scheme, a host whose last label
  starts with a letter and has no punycode label, and only characters that the
  platform leaves as they are. On this fragment the platform lower-cases scheme and
  host and makes an empty path \<open>/\<close>. The answer \<open>None\<close> is the platform's TypeError
  where the base has no colon, hence no scheme (lemma \<open>URL_reference_no_scheme\<close>), and
  where there is no base and the URL has no colon. For every other input outside the
  fragment the reference constructor also answers \<open>None\<close>, and says nothing about
  the platform there.
\<close>

definition letters :: "char set" where
  "letters = set ''abcdefghijklmnopqrstuvwxyzABCDEFGHIJKLMNOPQRSTUVWXYZ''"

definition digits :: "char set" where
  "digits = set ''0123456789''"

definition path_chars :: "char set" where
  "path_chars = letters \<union> digits \<union> set ''-_~/''"

definition query_chars :: "char set" where
  "query_chars = path_chars \<union> set ''.=&?%+:,;@''"

definition fragment_chars :: "char set" where
  "fragment_chars = query_chars \<union> {CHR 0x23}"

fun split_on :: "char \<Rightarrow> string \<Rightarrow> string list" where
  "split_on c [] = [[]]"
| "split_on c (x # xs) =
     (if x = c then [] # split_on c xs
      else (case split_on c xs of
              [] \<Rightarrow> [[x]]
            | y # ys \<Rightarrow> (x # y) # ys))"

definition simple_host :: "string \<Rightarrow> bool" where
  "simple_host h =
     (let labels = split_on (CHR ''.'') h in
      list_all (\<lambda>l. l \<noteq> [] \<and> set l \<subseteq> letters \<union> digits \<union> {CHR ''-''}
                 \<and> \<not> startsWith (toLocaleLowerCase l) ''xn--'') labels
      \<and> hd (last labels) \<in> letters)"

definition simple_path :: "string \<Rightarrow> bool" where
  "simple_path p = (p \<noteq> [] \<and> hd p = CHR ''/'' \<and> set p \<subseteq> path_chars \<union> {CHR ''.''}
     \<and> list_all (\<lambda>seg. seg \<noteq> ''.'' \<and> seg \<noteq> ''..'') (split_on (CHR ''/'') p))"

text \<open>The components of a URL of the fragment, and its \<open>href\<close> and \<open>origin\<close>.\<close>

record url_parts =
  url_scheme :: string
  url_host :: string
  url_path :: string
  url_query :: "string option"
  url_fragment :: "string option"

definition serialize :: "url_parts \<Rightarrow> url_object" where
  "serialize u =
     \<lparr>href = url_scheme u @ ''://'' @ url_host u @ url_path u
        @ (case url_query u of None \<Rightarrow> [] | Some q \<Rightarrow> CHR ''?'' # q)
        @ (case url_fragment u of None \<Rightarrow> [] | Some f \<Rightarrow> CHR 0x23 # f),
      origin = url_scheme u @ ''://'' @ url_host u\<rparr>"

text \<open>
  A string is cut at the first \<open>#\<close> and then at the first \<open>?\<close>: what remains, the
  query and the fragment (\<open>None\<close> when the separator is absent).
\<close>

definition break_at :: "char \<Rightarrow> string \<Rightarrow> string \<times> string option" where
  "break_at c s =
     (takeWhile (\<lambda>x. x \<noteq> c) s,
      case dropWhile (\<lambda>x. x \<noteq> c) s of [] \<Rightarrow> None | x # rest \<Rightarrow> Some rest)"

definition split_reference :: "string \<Rightarrow> (string \<times> string option \<times> string option) option" where
  "split_reference u =
     (case break_at (CHR 0x23) u of
        (front, f) \<Rightarrow>
          (case break_at (CHR ''?'') front of
             (main, q) \<Rightarrow>
               if (case q of None \<Rightarrow> True | Some q' \<Rightarrow> set q' \<subseteq> query_chars)
                  \<and> (case f of None \<Rightarrow> True | Some f' \<Rightarrow> set f' \<subseteq> fragment_chars)
               then Some (main, q, f)
               else None))"

text \<open>What follows \<open>//\<close>: the host, lower-cased, and the path.\<close>

definition parse_authority :: "string \<Rightarrow> (string \<times> string) option" where
  "parse_authority s =
     (let h = takeWhile (\<lambda>c. c \<noteq> CHR ''/'') s;
          p = dropWhile (\<lambda>c. c \<noteq> CHR ''/'') s
      in if simple_host h \<and> (p = [] \<or> simple_path p)
         then Some (toLocaleLowerCase h, if p = [] then ''/'' else p)
         else None)"

definition parse_absolute :: "string \<Rightarrow> url_parts option" where
  "parse_absolute u =
     (case split_reference u of
        None \<Rightarrow> None
      | Some (main, q, f) \<Rightarrow>
          (let s = toLocaleLowerCase (takeWhile (\<lambda>c. c \<noteq> CHR '':'') main);
               rest = dropWhile (\<lambda>c. c \<noteq> CHR '':'') main
           in if (s = ''http'' \<or> s = ''https'') \<and> startsWith rest ''://'' then
                (case parse_authority (drop 3 rest) of
                   None \<Rightarrow> None
                 | Some (h, p) \<Rightarrow>
                     Some \<lparr>url_scheme = s, url_host = h, url_path = p, url_query = q,
                           url_fragment = f\<rparr>)
              else None))"

text \<open>The base path up to and including its last slash.\<close>

definition directory :: "string \<Rightarrow> string" where
  "directory p = rev (dropWhile (\<lambda>c. c \<noteq> CHR ''/'') (rev p))"

text \<open>
  A reference against a parsed base: the empty reference keeps path and query of the
  base, a query keeps the path, and the fragment of the base is never kept.
\<close>

definition resolve_reference :: "url_parts \<Rightarrow> string \<Rightarrow> url_parts option" where
  "resolve_reference base u =
     (case split_reference u of
        None \<Rightarrow> None
      | Some (main, q, f) \<Rightarrow>
          if main = [] then
            Some (base\<lparr>url_query := (case q of None \<Rightarrow> url_query base | Some q' \<Rightarrow> q),
                       url_fragment := f\<rparr>)
          else if startsWith main ''//'' then
            (case parse_authority (drop 2 main) of
               None \<Rightarrow> None
             | Some (h, p) \<Rightarrow>
                 Some \<lparr>url_scheme = url_scheme base, url_host = h, url_path = p,
                       url_query = q, url_fragment = f\<rparr>)
          else if hd main = CHR ''/'' then
            (if simple_path main
             then Some (base\<lparr>url_path := main, url_query := q, url_fragment := f\<rparr>)
             else None)
          else if simple_path (CHR ''/'' # main) then
            Some (base\<lparr>url_path := directory (url_path base) @ main, url_query := q,
                       url_fragment := f\<rparr>)
          else parse_absolute u)"

definition URL_reference :: URL_constructor where
  "URL_reference u base =
     (case base of
        None \<Rightarrow> map_option serialize (parse_absolute u)
      | Some b \<Rightarrow>
          (case parse_absolute b of
             None \<Rightarrow> None
           | Some parsedBase \<Rightarrow> map_option serialize (resolve_reference parsedBase u)))"

text \<open>The components that the reference constructor produces.\<close>

definition plain :: "url_parts \<Rightarrow> bool" where
  "plain u =
     ((url_scheme u = ''http'' \<or> url_scheme u = ''https'')
      \<and> simple_host (url_host u) \<and> toLocaleLowerCase (url_host u) = url_host u
      \<and> simple_path (url_path u)
      \<and> (case url_query u of None \<Rightarrow> True | Some q \<Rightarrow> set q \<subseteq> query_chars)
      \<and> (case url_fragment u of None \<Rightarrow> True | Some f \<Rightarrow> set f \<subseteq> fragment_chars))"

section \<open>coerceOrigin\<close>

text \<open>
  \<open>coerceOrigin(trustedOrigin, url)\<close>: the URL is resolved against the trusted origin;
  the trusted origin is compared, as a string, with the origin of the result.
\<close>

definition coerceOrigin :: "URL_constructor \<Rightarrow> string \<Rightarrow> string \<Rightarrow> 'b error + string" where
  "coerceOrigin URL trustedOrigin u =
     (case URL u (Some trustedOrigin) of
        None \<Rightarrow> Inl (new_error TypeError None)
      | Some urlWithTrustedBase \<Rightarrow>
          if trustedOrigin \<noteq> origin urlWithTrustedBase then
            Inl (new_error OriginMismatchError
              (Some (''expected origin '' @ trustedOrigin @ '' for URL ''
                 @ href urlWithTrustedBase @ '', ''
                 @ ''see https://github.com/web-eid/web-eid.js#cors for secure CORS setup instructions'')))
          else Inr (href urlWithTrustedBase))"

section \<open>WebServerService\<close>

subsection \<open>Data\<close>

text \<open>The parts of the browser's webRequest types that the service reads.\<close>

record Fingerprint =
  sha1 :: string
  sha256 :: string

record CertificateInfo =
  fingerprint :: Fingerprint

record SecurityInfo =
  state :: string
  certificates :: "CertificateInfo list"

record HttpHeader =
  name :: string
  "value" :: "string option"

record OnHeadersReceivedDetails =
  requestId :: string
  responseHeaders :: "HttpHeader list option"

record BlockingResponse =
  cancel :: bool

text \<open>
  The \<open>init\<close> argument of a fetch. The request body stays at a type variable: the
  sources pass \<open>JSON.stringify\<close> of an object, and the model keeps the object.
\<close>

record 'r RequestInit =
  init_method :: "string option"
  init_headers :: "(string \<times> string) list"
  init_body :: "'r option"
  mode :: "string option"
  credentials :: "string option"

definition empty_init :: "'r RequestInit" where
  "empty_init = \<lparr>init_method = None, init_headers = [], init_body = None,
     mode = None, credentials = None\<rparr>"

text \<open>The result of \<open>fetch\<close>: the relayed fields and \<open>certificateInfo\<close>.\<close>

record 'b HttpResponse = "'b http_response" +
  certificateInfo :: "CertificateInfo option"

text \<open>The fields of the class.\<close>

record WebServerService =
  fingerprints :: "Fingerprint list"
  senderTabId :: int
  senderOrigin :: string
  corsOrigin :: "string option"

text \<open>
  What the browser does during one call of \<open>fetch\<close>: the answer of
  \<open>browser.permissions.contains\<close>, the answer of \<open>browser.webRequest.getSecurityInfo\<close>
  for each request, the \<open>onHeadersReceived\<close> events delivered for the fetched URL while
  the listener is registered, and the completion of \<open>browser.tabs.sendMessage\<close>.
\<close>

record 'b fetch_env =
  permissions_contains :: "'b error + bool"
  getSecurityInfo :: "string \<Rightarrow> 'b error + SecurityInfo"
  onHeadersReceived :: "OnHeadersReceivedDetails list"
  sendMessage :: "('b http_response, 'b error) completion"

text \<open>The calls to the browser made by \<open>fetch\<close>, and what the listener answered.\<close>

datatype 'r fetch_effect =
    Permissions_contains
  | AddListener string
  | SendMessage int string "'r RequestInit"
  | Listener_returned "BlockingResponse option"
  | Listener_rejected
  | RemoveListener

subsection \<open>Methods\<close>

text \<open>
  The constructor. \<open>getSenderTabId\<close> and \<open>getSenderUrl\<close> are parameters: they are
  imported from a module that is not among the sources.
\<close>

definition new_WebServerService ::
  "URL_constructor \<Rightarrow> ('m \<Rightarrow> 'b error + int) \<Rightarrow> ('m \<Rightarrow> 'b error + string) \<Rightarrow> 'm
     \<Rightarrow> 'b error + WebServerService" where
  "new_WebServerService URL getSenderTabId getSenderUrl sender =
     (case getSenderTabId sender of
        Inl e \<Rightarrow> Inl e
      | Inr tabId \<Rightarrow>
          (case getSenderUrl sender of
             Inl e \<Rightarrow> Inl e
           | Inr senderUrl \<Rightarrow>
               (case URL senderUrl None of
                  None \<Rightarrow> Inl (new_error TypeError None)
                | Some u \<Rightarrow>
                    Inr \<lparr>fingerprints = [], senderTabId = tabId, senderOrigin = origin u,
                         corsOrigin = None\<rparr>)))"

definition hasCertificateChanged :: "WebServerService \<Rightarrow> bool" where
  "hasCertificateChanged this =
     (case fingerprints this of
        [] \<Rightarrow> False
      | first # _ \<Rightarrow> \<not> list_all (\<lambda>fp. sha256 first = sha256 fp) (fingerprints this))"

text \<open>
  The listener of \<open>fetch\<close>, applied to one event. It takes the captured variable
  \<open>fetchError\<close> and gives back how its promise settles and the new \<open>fetchError\<close>. In
  the source the whole \<open>switch (securityInfo.state)\<close> is inside a block comment, so
  the listener ends after the check of the \<open>Access-Control-Allow-Origin\<close> header.
\<close>

definition accessControlAllowOrigin :: "OnHeadersReceivedDetails \<Rightarrow> string option" where
  "accessControlAllowOrigin details =
     (case responseHeaders details of
        None \<Rightarrow> None
      | Some hs \<Rightarrow>
          (case find (\<lambda>header. toLocaleLowerCase (name header) = ''access-control-allow-origin'') hs of
             None \<Rightarrow> None
           | Some header \<Rightarrow> value header))"

definition onHeadersReceivedListener ::
  "WebServerService \<Rightarrow> 'b fetch_env \<Rightarrow> OnHeadersReceivedDetails \<Rightarrow> 'b error option
     \<Rightarrow> (BlockingResponse option, 'b error) completion \<times> 'b error option" where
  "onHeadersReceivedListener this env details fetchError =
     (case getSecurityInfo env (requestId details) of
        Inl e \<Rightarrow> (Thrown e, fetchError)
      | Inr securityInfo \<Rightarrow>
          if truthy (corsOrigin this)
             \<and> Some (senderOrigin this) \<noteq> accessControlAllowOrigin details
          then (Returned (Some \<lparr>cancel = True\<rparr>),
                Some (new_error OriginMismatchError
                  (Some (''website origin '' @ senderOrigin this
                     @ '' does not match Access-Control-Allow-Origin: ''
                     @ template (accessControlAllowOrigin details)))))
          else (Returned None, fetchError))"

text \<open>The events delivered to the registered listener, in order.\<close>

fun deliver ::
  "WebServerService \<Rightarrow> 'b fetch_env \<Rightarrow> OnHeadersReceivedDetails list \<Rightarrow> 'b error option
     \<Rightarrow> 'b error option \<times> (BlockingResponse option, 'b error) completion list" where
  "deliver this env [] fetchError = (fetchError, [])"
| "deliver this env (details # rest) fetchError =
     (case onHeadersReceivedListener this env details fetchError of
        (settled, fetchError') \<Rightarrow>
          (case deliver this env rest fetchError' of
             (fetchError'', answers) \<Rightarrow> (fetchError'', settled # answers)))"

definition listener_effect :: "(BlockingResponse option, 'b error) completion \<Rightarrow> 'r fetch_effect" where
  "listener_effect settled =
     (case settled of
        Returned r \<Rightarrow> Listener_returned r
      | _ \<Rightarrow> Listener_rejected)"

definition snapshot :: "'b http_response \<Rightarrow> 'b http_response" where
  "snapshot r = \<lparr>ok = ok r, redirected = redirected r, status = status r,
     statusText = statusText r, type = type r, url = url r, body = body r,
     headers = headers r\<rparr>"

definition with_certificateInfo ::
  "CertificateInfo option \<Rightarrow> 'b http_response \<Rightarrow> 'b HttpResponse" where
  "with_certificateInfo c r = \<lparr>ok = ok r, redirected = redirected r, status = status r,
     statusText = statusText r, type = type r, url = url r, body = body r,
     headers = headers r, certificateInfo = c\<rparr>"

text \<open>
  The first statements of \<open>fetch\<close> after the HTTPS check: \<open>hasWebRequestPermission\<close>
  is the answer of \<open>browser.permissions.contains\<close>, and stays false when the call
  throws.
\<close>

definition hasWebRequestPermission :: "'b fetch_env \<Rightarrow> bool" where
  "hasWebRequestPermission env =
     (case permissions_contains env of Inl e \<Rightarrow> False | Inr b \<Rightarrow> b)"

text \<open>
  The listener is registered only with the permission. The result is the variable
  \<open>fetchError\<close> at the time \<open>sendMessage\<close> settles, and what the listener answered.
\<close>

definition listen ::
  "WebServerService \<Rightarrow> 'b fetch_env
     \<Rightarrow> 'b error option \<times> (BlockingResponse option, 'b error) completion list" where
  "listen this env =
     (if hasWebRequestPermission env
      then deliver this env (onHeadersReceived env) None
      else (None, []))"

text \<open>\<open>this.corsOrigin || this.senderOrigin\<close>\<close>

definition baseOrigin :: "WebServerService \<Rightarrow> string" where
  "baseOrigin this = (if truthy (corsOrigin this) then the (corsOrigin this) else senderOrigin this)"

text \<open>
  \<open>fetch(fetchUrl, init)\<close>. The result is how the returned promise settles, the fields
  of the object afterwards, and the calls made to the browser.
\<close>

definition fetch ::
  "URL_constructor \<Rightarrow> WebServerService \<Rightarrow> string \<Rightarrow> 'r RequestInit option \<Rightarrow> 'b fetch_env
     \<Rightarrow> ('b HttpResponse, 'b error) completion \<times> WebServerService \<times> 'r fetch_effect list" where
  "fetch URL this fetchUrl init env =
     (case coerceOrigin URL (baseOrigin this) fetchUrl of
        Inl e \<Rightarrow> (Thrown e, this, [])
      | Inr fetchUrl' \<Rightarrow>
          if \<not> startsWith (toLocaleLowerCase fetchUrl') ''https://'' then
            (Thrown (new_error ProtocolInsecureError (Some (''HTTPS required for '' @ fetchUrl'))),
             this, [])
          else
            (let certificateInfo' = None;
                 sent = SendMessage (senderTabId this) fetchUrl'
                   ((case init of None \<Rightarrow> empty_init | Some i \<Rightarrow> i)
                      \<lparr>mode := Some (if truthy (corsOrigin this) then ''cors'' else ''same-origin''),
                        credentials := Some (if truthy (corsOrigin this) then ''include'' else ''same-origin'')\<rparr>);
                 fetchError = fst (listen this env);
                 started = Permissions_contains
                   # (if hasWebRequestPermission env then [AddListener fetchUrl'] else [])
                   @ sent # map listener_effect (snd (listen this env));
                 removed = (if hasWebRequestPermission env then [RemoveListener] else [])
             in case sendMessage env of
                  Pending \<Rightarrow> (Pending, this, started)
                | Thrown e \<Rightarrow> (Thrown e, this, started @ removed)
                | Returned response' \<Rightarrow>
                    (let result = with_certificateInfo certificateInfo' response';
                         fetchError' =
                           (if \<not> ok response' then
                              Some ((case fetchError of
                                       Some e \<Rightarrow> e
                                     | None \<Rightarrow> new_error ServerRejectedError None)
                                    \<lparr>response := Some (snapshot response')\<rparr>)
                            else fetchError)
                     in case fetchError' of
                          Some e \<Rightarrow> (Thrown e, this, started @ removed @ removed)
                        | None \<Rightarrow> (Returned result, this, started @ removed @ removed))))"

text \<open>Calls of \<open>fetch\<close> on one object, one after the other.\<close>

fun session ::
  "URL_constructor \<Rightarrow> WebServerService \<Rightarrow> (string \<times> 'r RequestInit option \<times> 'b fetch_env) list
     \<Rightarrow> ('b HttpResponse, 'b error) completion list \<times> WebServerService" where
  "session URL this [] = ([], this)"
| "session URL this ((fetchUrl, init, env) # calls) =
     (case fetch URL this fetchUrl init env of
        (settled, this', effects) \<Rightarrow>
          (case session URL this' calls of
             (rest, this'') \<Rightarrow> (settled # rest, this'')))"

text \<open>The members of the library's \<open>Action\<close> enumeration that the sources name.\<close>

datatype Action = AUTHENTICATE | SIGN | SIGN_SUCCESS | SIGN_FAILURE | Other_action string

definition originProps :: "Action \<Rightarrow> string option" where
  "originProps action =
     (case action of
        AUTHENTICATE \<Rightarrow> Some ''authUrlOrigin''
      | SIGN \<Rightarrow> Some ''signUrlOrigin''
      | _ \<Rightarrow> None)"

text \<open>
  \<open>enableCors(action, corsConfigUrl)\<close>. The parameter \<open>corsConfig_of\<close> is the cast of the
  response body to \<open>Record<string, string>\<close>.
\<close>

definition enableCors ::
  "URL_constructor \<Rightarrow> ('b \<Rightarrow> string \<Rightarrow> string option) \<Rightarrow> WebServerService \<Rightarrow> Action \<Rightarrow> string
     \<Rightarrow> 'b fetch_env
     \<Rightarrow> (unit, 'b error) completion \<times> WebServerService \<times> 'r fetch_effect list" where
  "enableCors URL corsConfig_of this action corsConfigUrl env =
     (case originProps action of
        None \<Rightarrow> (Thrown (new_error Error (Some ''invalid action'')), this, [])
      | Some prop \<Rightarrow>
          (case coerceOrigin URL (senderOrigin this) corsConfigUrl of
             Inl e \<Rightarrow> (Thrown e, this, [])
           | Inr coerced \<Rightarrow>
               (case fetch URL this coerced None env of
                  (Pending, this', effects) \<Rightarrow> (Pending, this', effects)
                | (Thrown e, this', effects) \<Rightarrow> (Thrown e, this', effects)
                | (Returned response', this', effects) \<Rightarrow>
                    (let corsConfig = corsConfig_of (body response');
                         corsOrigin' = corsConfig prop
                     in if \<not> truthy corsOrigin' then
                          (Thrown (new_error MissingParameterError
                             (Some (prop @ '' required in CORS configuration''))),
                           this', effects)
                        else
                          (case URL (the corsOrigin') None of
                             None \<Rightarrow>
                               (Thrown (new_error Error
                                  (Some (''invalid origin in CORS configuration '' @ [CHR 0x22]
                                     @ the corsOrigin' @ [CHR 0x22]))),
                                this', effects)
                           | Some u \<Rightarrow>
                               (Returned (), this'\<lparr>corsOrigin := Some (origin u)\<rparr>, effects))))))"

section \<open>The sign action\<close>

subsection \<open>Imports of the module\<close>

text \<open>
  Functions that \<open>sign.ts\<close> and the constructor of the service import from the library
  or from modules outside the sources, and the two casts of a response body:
  \<open>as_corsConfig\<close> for \<open>fetch<Record<string, string>>\<close> in \<open>enableCors\<close>,
  \<open>as_prepared\<close> for \<open>as HttpResponse<{ hash: string; algorithm: string }>\<close>.
\<close>

record PreparedDocument =
  hash :: string
  algorithm :: string

record ('m, 'b, 's) platform =
  new_URL :: URL_constructor
  getSenderTabId :: "'m \<Rightarrow> 'b error + int"
  getSenderUrl :: "'m \<Rightarrow> 'b error + string"
  serializeError :: "'b error \<Rightarrow> 's"
  as_corsConfig :: "'b \<Rightarrow> string \<Rightarrow> string option"
  as_prepared :: "'b \<Rightarrow> PreparedDocument"

subsection \<open>The native application\<close>

record NativeAlgorithmSet =
  crypto_algo :: string
  hash_algo :: string
  padding_algo :: string

record SignatureAlgorithm =
  crypto :: string
  hash_function :: string
  padding :: string

text \<open>The two answers of the native application, at the types the source casts them to.\<close>

record CertificateResponse =
  certificate :: string
  certificate_error :: "string option"
  supported_signature_algos :: "NativeAlgorithmSet list"

record SignatureResponse =
  signature :: string
  signature_error :: string

text \<open>The two messages sent to the native application.\<close>

datatype NativeRequest =
    Get_signing_certificate string "string option"
  | Sign_command string string string string "string option"

text \<open>
  Modelled from the spec: \<open>NativeAppService\<close> is not among the sources. The spec gives
  the channel three operations, \<open>connect() -> status\<close>, \<open>send(request) -> response\<close>
  and \<open>close()\<close>. An object of the class is modelled by what has been called on it;
  the answers of \<open>connect\<close> and \<open>send\<close> are inputs.
\<close>

record NativeAppService =
  connect_calls :: nat
  sent :: "NativeRequest list"
  close_calls :: nat

definition new_NativeAppService :: NativeAppService where
  "new_NativeAppService = \<lparr>connect_calls = 0, sent = [], close_calls = 0\<rparr>"

text \<open>The bodies of the two POST requests, before \<open>JSON.stringify\<close>.\<close>

datatype 'b request_payload =
    Prepare_payload string "SignatureAlgorithm list"
  | Finalize_payload 'b string

text \<open>
  The variables \<open>webServerService\<close> and \<open>nativeAppService\<close> of \<open>sign\<close>, the
  \<open>NativeAppService\<close> objects constructed so far (a variable holds the index of its
  object) and the calls made to the browser by the fetches.
\<close>

record 'b sign_state =
  webServerService :: "WebServerService option"
  nativeAppService :: "nat option"
  channels :: "NativeAppService list"
  browser_calls :: "'b request_payload fetch_effect list"

definition initial_state :: "'b sign_state" where
  "initial_state = \<lparr>webServerService = None, nativeAppService = None, channels = [],
     browser_calls = []\<rparr>"

text \<open>
  What the outside world does during one run of \<open>sign\<close>: the browser during each of
  the three fetches, the answers of the native application, and for each
  \<open>Promise.race\<close> whether the timer settles before the other promise.
\<close>

record 'b sign_env =
  cors_fetch :: "'b fetch_env"
  connect_first :: "(string, 'b error) completion"
  certificate_reply :: "(CertificateResponse, 'b error) completion"
  certificate_timer_first :: bool
  prepare_fetch :: "'b fetch_env"
  prepare_timer_first :: bool
  connect_second :: "(string, 'b error) completion"
  signature_reply :: "(SignatureResponse, 'b error) completion"
  signature_timer_first :: bool
  finalize_fetch :: "'b fetch_env"
  finalize_timer_first :: bool

subsection \<open>Statements\<close>

text \<open>
  A statement of the asynchronous function takes the state and gives the completion of
  what it awaits and the new state. \<open>andThen\<close> is the sequencing of statements
  inside the \<open>try\<close> block: the rest runs only after a value; an exception or a
  promise that never settles ends the block.
\<close>

type_synonym ('a, 'b) statement = "'b sign_state \<Rightarrow> ('a, 'b error) completion \<times> 'b sign_state"

definition resolve :: "'a \<Rightarrow> ('a, 'b) statement" where
  "resolve a st = (Returned a, st)"

definition reject :: "'b error \<Rightarrow> ('a, 'b) statement" where
  "reject e st = (Thrown e, st)"

definition andThen :: "('a, 'b) statement \<Rightarrow> ('a \<Rightarrow> ('c, 'b) statement) \<Rightarrow> ('c, 'b) statement" where
  "andThen m f st =
     (case m st of
        (Returned a, st') \<Rightarrow> f a st'
      | (Thrown e, st') \<Rightarrow> (Thrown e, st')
      | (Pending, st') \<Rightarrow> (Pending, st'))"

text \<open>
  Modelled from the spec: \<open>throwAfterTimeout\<close> is not among the sources. The spec races
  each step against a timer that fails with the given error. \<open>Promise.race\<close> settles as
  the first of its promises to settle: the timer when it is first or when the other
  promise never settles, the other promise otherwise.
\<close>

definition race :: "('a, 'e) completion \<Rightarrow> bool \<Rightarrow> 'e \<Rightarrow> ('a, 'e) completion" where
  "race promise timer_first timeout_error =
     (case promise of
        Pending \<Rightarrow> Thrown timeout_error
      | _ \<Rightarrow> if timer_first then Thrown timeout_error else promise)"

definition raced :: "('a, 'b) statement \<Rightarrow> bool \<Rightarrow> 'b error \<Rightarrow> ('a, 'b) statement" where
  "raced m timer_first timeout_error st =
     (case m st of (promise, st') \<Rightarrow> (race promise timer_first timeout_error, st'))"

text \<open>\<open>webServerService = new WebServerService(sender)\<close>\<close>

definition construct_WebServerService :: "('m, 'b, 's) platform \<Rightarrow> 'm \<Rightarrow> (unit, 'b) statement" where
  "construct_WebServerService P sender st =
     (case new_WebServerService (new_URL P) (getSenderTabId P) (getSenderUrl P) sender of
        Inl e \<Rightarrow> (Thrown e, st)
      | Inr service \<Rightarrow> (Returned (), st\<lparr>webServerService := Some service\<rparr>))"

text \<open>\<open>nativeAppService = new NativeAppService()\<close>\<close>

definition construct_NativeAppService :: "(unit, 'b) statement" where
  "construct_NativeAppService st =
     (Returned (), st\<lparr>channels := channels st @ [new_NativeAppService],
                       nativeAppService := Some (length (channels st))\<rparr>)"

text \<open>A method call on the object held by \<open>nativeAppService\<close>.\<close>

definition on_channel :: "(NativeAppService \<Rightarrow> NativeAppService) \<Rightarrow> 'b sign_state \<Rightarrow> 'b sign_state" where
  "on_channel f st =
     (case nativeAppService st of
        None \<Rightarrow> st
      | Some i \<Rightarrow> st\<lparr>channels := (channels st)[i := f (channels st ! i)]\<rparr>)"

definition connect :: "(string, 'b error) completion \<Rightarrow> (string, 'b) statement" where
  "connect answer st =
     (case nativeAppService st of
        None \<Rightarrow> (Thrown (new_error TypeError None), st)
      | Some i \<Rightarrow> (answer, on_channel (\<lambda>c. c\<lparr>connect_calls := Suc (connect_calls c)\<rparr>) st))"

definition send :: "NativeRequest \<Rightarrow> ('a, 'b error) completion \<Rightarrow> ('a, 'b) statement" where
  "send request answer st =
     (case nativeAppService st of
        None \<Rightarrow> (Thrown (new_error TypeError None), st)
      | Some i \<Rightarrow> (answer, on_channel (\<lambda>c. c\<lparr>sent := sent c @ [request]\<rparr>) st))"

text \<open>\<open>nativeAppService?.close()\<close>\<close>

definition close :: "'b sign_state \<Rightarrow> 'b sign_state" where
  "close st = on_channel (\<lambda>c. c\<lparr>close_calls := Suc (close_calls c)\<rparr>) st"

text \<open>\<open>(new URL(u)).origin\<close>\<close>

definition origin_of :: "('m, 'b, 's) platform \<Rightarrow> string \<Rightarrow> (string, 'b) statement" where
  "origin_of P u st =
     (case new_URL P u None of
        None \<Rightarrow> (Thrown (new_error TypeError None), st)
      | Some parsed \<Rightarrow> (Returned (origin parsed), st))"

text \<open>\<open>(new URL(getSenderUrl(sender))).origin\<close>\<close>

definition sender_origin :: "('m, 'b, 's) platform \<Rightarrow> 'm \<Rightarrow> (string, 'b) statement" where
  "sender_origin P sender st =
     (case getSenderUrl P sender of
        Inl e \<Rightarrow> (Thrown e, st)
      | Inr senderUrl \<Rightarrow> origin_of P senderUrl st)"

text \<open>The two methods of the service, called on the object held by \<open>webServerService\<close>.\<close>

definition service_enableCors ::
  "('m, 'b, 's) platform \<Rightarrow> Action \<Rightarrow> string \<Rightarrow> 'b fetch_env \<Rightarrow> (unit, 'b) statement" where
  "service_enableCors P action corsConfigUrl env st =
     (case webServerService st of
        None \<Rightarrow> (Thrown (new_error TypeError None), st)
      | Some service \<Rightarrow>
          (case enableCors (new_URL P) (as_corsConfig P) service action corsConfigUrl env of
             (settled, service', effects) \<Rightarrow>
               (settled, st\<lparr>webServerService := Some service',
                            browser_calls := browser_calls st @ effects\<rparr>)))"

definition service_fetch ::
  "('m, 'b, 's) platform \<Rightarrow> string \<Rightarrow> 'b request_payload RequestInit \<Rightarrow> 'b fetch_env
     \<Rightarrow> ('b HttpResponse, 'b) statement" where
  "service_fetch P fetchUrl init env st =
     (case webServerService st of
        None \<Rightarrow> (Thrown (new_error TypeError None), st)
      | Some service \<Rightarrow>
          (case fetch (new_URL P) service fetchUrl (Some init) env of
             (settled, service', effects) \<Rightarrow>
               (settled, st\<lparr>webServerService := Some service',
                            browser_calls := browser_calls st @ effects\<rparr>)))"

text \<open>\<open>{ ...headers, "Content-Type": "application/json" }\<close>\<close>

fun set_property :: "string \<Rightarrow> string \<Rightarrow> (string \<times> string) list \<Rightarrow> (string \<times> string) list" where
  "set_property k v [] = [(k, v)]"
| "set_property k v ((k', v') # rest) =
     (if k = k' then (k, v) # rest else (k', v') # set_property k v rest)"

definition post_json :: "(string \<times> string) list \<Rightarrow> 'r \<Rightarrow> 'r RequestInit" where
  "post_json headers' payload =
     \<lparr>init_method = Some ''POST'',
      init_headers = set_property ''Content-Type'' ''application/json'' headers',
      init_body = Some payload, mode = None, credentials = None\<rparr>"

text \<open>
  Modelled from the spec: \<open>pick\<close> is not among the sources. The spec's result carries a
  projected subset of the finalize response; the keys listed in the source are the
  eight relayed fields.
\<close>

definition pick :: "'b HttpResponse \<Rightarrow> 'b http_response" where
  "pick r = \<lparr>ok = ok r, redirected = redirected r, status = status r,
     statusText = statusText r, type = type r, url = url r, body = body r,
     headers = headers r\<rparr>"

text \<open>The object returned by \<open>sign\<close>.\<close>

record ('b, 's) sign_result =
  action :: Action
  result_response :: "'b http_response option"
  result_error :: "'s option"

subsection \<open>The try block\<close>

text \<open>Lines 50 to 57: the two constructors, the CORS negotiation, \<open>connect\<close>.\<close>

definition sign_connect ::
  "('m, 'b, 's) platform \<Rightarrow> string option \<Rightarrow> 'm \<Rightarrow> 'b sign_env \<Rightarrow> (string, 'b) statement" where
  "sign_connect P getCorsConfigUrl sender env =
     andThen (construct_WebServerService P sender) (\<lambda>_.
     andThen construct_NativeAppService (\<lambda>_.
     andThen (if truthy getCorsConfigUrl
              then service_enableCors P SIGN (the getCorsConfigUrl) (cors_fetch env)
              else resolve ()) (\<lambda>_.
     connect (connect_first env))))"

text \<open>Lines 61 to 96: the signing certificate.\<close>

definition sign_certificate ::
  "('m, 'b, 's) platform \<Rightarrow> string \<Rightarrow> string option \<Rightarrow> 'b sign_env
     \<Rightarrow> (string \<times> SignatureAlgorithm list, 'b) statement" where
  "sign_certificate P postPrepareSigningUrl lang env =
     andThen (origin_of P postPrepareSigningUrl) (\<lambda>origin'.
     andThen (raced (send (Get_signing_certificate origin' (if truthy lang then lang else None))
                          (certificate_reply env))
                    (certificate_timer_first env) (new_error UserTimeoutError None))
       (\<lambda>certificateResponse.
          if truthy (certificate_error certificateResponse) then
            reject (new_error Error (certificate_error certificateResponse))
          else if certificate certificateResponse = [] then
            reject (new_error Error (Some ''Missing signing certificate''))
          else
            resolve (certificate certificateResponse,
              map (\<lambda>algorithmSet. \<lparr>crypto = crypto_algo algorithmSet,
                     hash_function = hash_algo algorithmSet,
                     padding = padding_algo algorithmSet\<rparr>)
                (supported_signature_algos certificateResponse))))"

text \<open>Lines 98 to 114: the prepare request.\<close>

definition sign_prepare ::
  "('m, 'b, 's) platform \<Rightarrow> string \<Rightarrow> (string \<times> string) list \<Rightarrow> 'b sign_env
     \<Rightarrow> string \<times> SignatureAlgorithm list \<Rightarrow> ('b HttpResponse, 'b) statement" where
  "sign_prepare P postPrepareSigningUrl headers' env selected =
     raced (service_fetch P postPrepareSigningUrl
              (post_json headers' (Prepare_payload (fst selected) (snd selected)))
              (prepare_fetch env))
           (prepare_timer_first env)
           (new_error ServerTimeoutError
              (Some (''server failed to respond in time - POST '' @ postPrepareSigningUrl)))"

text \<open>Lines 118 to 147: the second native application, the signature.\<close>

definition sign_signature ::
  "('m, 'b, 's) platform \<Rightarrow> 'm \<Rightarrow> string option \<Rightarrow> 'b sign_env \<Rightarrow> string \<Rightarrow> 'b HttpResponse
     \<Rightarrow> (string, 'b) statement" where
  "sign_signature P sender lang env certificate' prepareDocumentResult =
     andThen construct_NativeAppService (\<lambda>_.
     andThen (connect (connect_second env)) (\<lambda>_.
     andThen (sender_origin P sender) (\<lambda>origin'.
     andThen (raced (send (Sign_command
                             (hash (as_prepared P (body prepareDocumentResult)))
                             (algorithm (as_prepared P (body prepareDocumentResult)))
                             origin' certificate'
                             (if truthy lang then lang else None))
                          (signature_reply env))
                    (signature_timer_first env) (new_error UserTimeoutError None))
       (\<lambda>signatureResponse.
          if signature_error signatureResponse \<noteq> [] then
            reject (new_error Error (Some (signature_error signatureResponse)))
          else if signature signatureResponse = [] then
            reject (new_error Error (Some ''Missing sign signature''))
          else resolve (signature signatureResponse)))))"

text \<open>Lines 151 to 189: the finalize request and the result.\<close>

definition sign_finalize ::
  "('m, 'b, 's) platform \<Rightarrow> string \<Rightarrow> (string \<times> string) list \<Rightarrow> 'b sign_env \<Rightarrow> 'b HttpResponse
     \<Rightarrow> string \<Rightarrow> (('b, 's) sign_result, 'b) statement" where
  "sign_finalize P postFinalizeSigningUrl headers' env prepareDocumentResult signature' =
     andThen (raced (service_fetch P postFinalizeSigningUrl
                       (post_json headers' (Finalize_payload (body prepareDocumentResult) signature'))
                       (finalize_fetch env))
                    (finalize_timer_first env)
                    (new_error ServerTimeoutError
                       (Some (''server failed to respond in time - POST '' @ postFinalizeSigningUrl))))
       (\<lambda>signatureVerifyResponse.
          resolve \<lparr>action = SIGN_SUCCESS,
                   result_response = Some (pick signatureVerifyResponse),
                   result_error = None\<rparr>)"

text \<open>The statements of the try block up to the signature, and the whole block.\<close>

definition sign_until_signature ::
  "('m, 'b, 's) platform \<Rightarrow> string \<Rightarrow> string option \<Rightarrow> (string \<times> string) list \<Rightarrow> 'm
     \<Rightarrow> string option \<Rightarrow> 'b sign_env \<Rightarrow> ('b HttpResponse \<times> string, 'b) statement" where
  "sign_until_signature P postPrepareSigningUrl getCorsConfigUrl headers' sender lang env =
     andThen (sign_connect P getCorsConfigUrl sender env) (\<lambda>nativeAppStatus.
     andThen (sign_certificate P postPrepareSigningUrl lang env) (\<lambda>selected.
     andThen (sign_prepare P postPrepareSigningUrl headers' env selected) (\<lambda>prepareDocumentResult.
     andThen (sign_signature P sender lang env (fst selected) prepareDocumentResult) (\<lambda>signature'.
     resolve (prepareDocumentResult, signature')))))"

definition sign_try ::
  "('m, 'b, 's) platform \<Rightarrow> string \<Rightarrow> string \<Rightarrow> string option \<Rightarrow> (string \<times> string) list \<Rightarrow> 'm
     \<Rightarrow> string option \<Rightarrow> 'b sign_env \<Rightarrow> (('b, 's) sign_result, 'b) statement" where
  "sign_try P postPrepareSigningUrl postFinalizeSigningUrl getCorsConfigUrl headers' sender lang env =
     andThen (sign_until_signature P postPrepareSigningUrl getCorsConfigUrl headers' sender lang env)
       (\<lambda>prepared_and_signed.
          sign_finalize P postFinalizeSigningUrl headers' env
            (fst prepared_and_signed) (snd prepared_and_signed))"

subsection \<open>sign\<close>

text \<open>
  The function: the try block from the initial state, the \<open>catch\<close> clause, which
  returns the failure object, and the \<open>finally\<close> clause, which closes the native
  application held by the variable. The two timeouts are arguments as in the source;
  they reach the model through the environment, which says who wins each race. When
  the try block awaits a promise that never settles, neither clause runs.
\<close>

definition sign ::
  "('m, 'b, 's) platform \<Rightarrow> string \<Rightarrow> string \<Rightarrow> string option \<Rightarrow> (string \<times> string) list
     \<Rightarrow> nat \<Rightarrow> nat \<Rightarrow> 'm \<Rightarrow> string option \<Rightarrow> 'b sign_env
     \<Rightarrow> (('b, 's) sign_result, 'b error) completion \<times> 'b sign_state" where
  "sign P postPrepareSigningUrl postFinalizeSigningUrl getCorsConfigUrl headers'
        userInteractionTimeout serverRequestTimeout sender lang env =
     (case sign_try P postPrepareSigningUrl postFinalizeSigningUrl getCorsConfigUrl headers'
             sender lang env initial_state of
        (Returned result, st) \<Rightarrow> (Returned result, close st)
      | (Thrown e, st) \<Rightarrow>
          (Returned \<lparr>action = SIGN_FAILURE, result_response = None,
                     result_error = Some (serializeError P e)\<rparr>,
           close st)
      | (Pending, st) \<Rightarrow> (Pending, st))"

section \<open>Invariant of the try block\<close>

text \<open>
  Inside the try block no native application has been closed, and the variable
  \<open>nativeAppService\<close> holds the object constructed last, if any was constructed.
\<close>

definition held_unclosed :: "'b sign_state \<Rightarrow> bool" where
  "held_unclosed st =
     ((case nativeAppService st of
         None \<Rightarrow> channels st = []
       | Some i \<Rightarrow> Suc i = length (channels st))
      \<and> list_all (\<lambda>c. close_calls c = 0) (channels st))"

definition keeps :: "('a, 'b) statement \<Rightarrow> bool" where
  "keeps m = (\<forall>st. held_unclosed st \<longrightarrow> held_unclosed (snd (m st)))"

section \<open>Example values\<close>

text \<open>
  A page at \<open>https://a.example\<close>, the same page after a CORS negotiation, a page served
  over plain HTTP, and a browser: whether the webRequest permission is granted, the
  SHA-256 fingerprint of the certificate it reports, the response headers it shows to
  the listener, and the completion of the relayed fetch. Response bodies are JSON
  objects with string values.
\<close>

type_synonym json_object = "(string \<times> string) list"

definition page :: WebServerService where
  "page = \<lparr>fingerprints = [], senderTabId = 7, senderOrigin = ''https://a.example'', corsOrigin = None\<rparr>"

definition page_with_cors :: WebServerService where
  "page_with_cors = page\<lparr>corsOrigin := Some ''https://cors.example''\<rparr>"

definition insecure_page :: WebServerService where
  "insecure_page = page\<lparr>senderOrigin := ''http://a.example''\<rparr>"

definition secure_connection :: "string \<Rightarrow> SecurityInfo" where
  "secure_connection digest =
     \<lparr>state = ''secure'', certificates = [\<lparr>fingerprint = \<lparr>sha1 = [], sha256 = digest\<rparr>\<rparr>]\<rparr>"

definition headers_event :: "HttpHeader list \<Rightarrow> OnHeadersReceivedDetails" where
  "headers_event hs = \<lparr>requestId = ''1'', responseHeaders = Some hs\<rparr>"

definition relayed :: "nat \<Rightarrow> json_object http_response" where
  "relayed code = \<lparr>ok = (200 \<le> code \<and> code \<le> 299), redirected = False, status = code,
     statusText = [], type = ''basic'', url = ''https://a.example/x'',
     body = [(''hash'', ''0a''), (''algorithm'', ''SHA-256'')], headers = []\<rparr>"

definition network_error :: "json_object error" where
  "network_error = new_error TypeError (Some ''NetworkError when attempting to fetch resource.'')"

definition browser ::
  "bool \<Rightarrow> string \<Rightarrow> HttpHeader list \<Rightarrow> (json_object http_response, json_object error) completion
     \<Rightarrow> json_object fetch_env" where
  "browser permitted digest hs answer =
     \<lparr>permissions_contains = Inr permitted,
      getSecurityInfo = (\<lambda>request. Inr (secure_connection digest)),
      onHeadersReceived = [headers_event hs],
      sendMessage = answer\<rparr>"

text \<open>
  A platform for \<open>sign\<close>: the reference URL constructor, a sender given as its URL and
  tab id, an error serialized to its kind, message and response, and response bodies
  read as JSON objects. A world: whether the user is late for the certificate, the
  answer of the first \<open>connect\<close>, and the status of the finalize response; the browser
  has no webRequest permission, the other steps succeed in time.
\<close>

type_synonym serialized_error = "error_kind \<times> string option \<times> json_object http_response option"

definition example_platform :: "(string \<times> int, json_object, serialized_error) platform" where
  "example_platform =
     \<lparr>new_URL = URL_reference,
      getSenderTabId = (\<lambda>sender. Inr (snd sender)),
      getSenderUrl = (\<lambda>sender. Inr (fst sender)),
      serializeError = (\<lambda>e. (kind e, message e, response e)),
      as_corsConfig = map_of,
      as_prepared = (\<lambda>b. \<lparr>hash = (case map_of b ''hash'' of None \<Rightarrow> [] | Some h \<Rightarrow> h),
                            algorithm = (case map_of b ''algorithm'' of None \<Rightarrow> [] | Some a \<Rightarrow> a)\<rparr>)\<rparr>"

definition world ::
  "bool \<Rightarrow> (string, json_object error) completion \<Rightarrow> nat \<Rightarrow> json_object sign_env" where
  "world user_late native code =
     \<lparr>cors_fetch = browser False ''AA'' [] (Returned (relayed 200)),
      connect_first = native,
      certificate_reply = Returned
        \<lparr>certificate = ''MIIB'', certificate_error = None,
         supported_signature_algos =
           [\<lparr>crypto_algo = ''ECC'', hash_algo = ''SHA-256'', padding_algo = ''NONE''\<rparr>]\<rparr>,
      certificate_timer_first = user_late,
      prepare_fetch = browser False ''AA'' [] (Returned (relayed 200)),
      prepare_timer_first = False,
      connect_second = Returned ''2.0.0'',
      signature_reply = Returned \<lparr>signature = ''c2ln'', signature_error = []\<rparr>,
      signature_timer_first = False,
      finalize_fetch = browser False ''AA'' [] (Returned (relayed code)),
      finalize_timer_first = False\<rparr>"

text \<open>A run of \<open>sign\<close> for the page, with absolute URLs and without CORS configuration.\<close>

definition run_sign ::
  "json_object sign_env
     \<Rightarrow> ((json_object, serialized_error) sign_result, json_object error) completion
        \<times> json_object sign_state" where
  "run_sign env =
     sign example_platform ''https://a.example/prepare'' ''https://a.example/finalize'' None []
       120000 20000 (''https://a.example/page'', 7) None env"

text \<open>An error with which the native application may reject \<open>connect\<close>.\<close>

definition native_unavailable :: "json_object error" where
  "native_unavailable = new_error Error (Some ''native application closed the connection'')"

section \<open>Properties\<close>

subsection \<open>Evaluation\<close>

lemmas URL_reference_eval =
  URL_reference_def resolve_reference_def parse_absolute_def parse_authority_def
  split_reference_def break_at_def directory_def serialize_def simple_host_def simple_path_def
  startsWith_def toLocaleLowerCase_def toLowerChar_def letters_def digits_def path_chars_def
  query_chars_def fragment_chars_def

lemmas example_defs =
  page_def page_with_cors_def insecure_page_def secure_connection_def headers_event_def
  relayed_def network_error_def browser_def

lemmas fetch_eval =
  fetch_def baseOrigin_def truthy_def coerceOrigin_def new_error_def listen_def
  hasWebRequestPermission_def onHeadersReceivedListener_def accessControlAllowOrigin_def
  template_def listener_effect_def with_certificateInfo_def snapshot_def empty_init_def

subsection \<open>coerceOrigin\<close>

text \<open>
  C6, as amended. For every \<open>trustedOrigin\<close> and \<open>url\<close>: where the platform cannot
  resolve \<open>url\<close> against \<open>trustedOrigin\<close> as a base, \<open>coerceOrigin\<close> throws the
  TypeError of the URL constructor; where the platform resolves it, \<open>coerceOrigin\<close>
  returns the \<open>href\<close> of the resolved URL if its origin equals \<open>trustedOrigin\<close>, and
  otherwise throws an OriginMismatchError whose message names the trusted origin and the
  resolved URL. With the reference constructor,
  \<open>coerceOrigin("https://a.example", "/path")\<close> is \<open>"https://a.example/path"\<close> and
  \<open>coerceOrigin("https://a.example", "https://b.example/x")\<close> throws OriginMismatchError.
\<close>

theorem coerceOrigin_resolves:
  "(URL u (Some trustedOrigin) = None \<longrightarrow>
      coerceOrigin URL trustedOrigin u = (Inl (new_error TypeError None) :: 'b error + string))
   \<and> (URL u (Some trustedOrigin) = Some resolved \<longrightarrow>
      (origin resolved = trustedOrigin \<longrightarrow>
         coerceOrigin URL trustedOrigin u = (Inr (href resolved) :: 'b error + string)) \<and>
      (origin resolved \<noteq> trustedOrigin \<longrightarrow>
         coerceOrigin URL trustedOrigin u
           = (Inl (new_error OriginMismatchError
                (Some (''expected origin '' @ trustedOrigin @ '' for URL '' @ href resolved @ '', ''
                   @ ''see https://github.com/web-eid/web-eid.js#cors for secure CORS setup instructions'')))
              :: 'b error + string)))
   \<and> coerceOrigin URL_reference ''https://a.example'' ''/path''
        = (Inr ''https://a.example/path'' :: 'b error + string)
   \<and> (\<exists>e :: 'b error. coerceOrigin URL_reference ''https://a.example'' ''https://b.example/x'' = Inl e
         \<and> kind e = OriginMismatchError)"
  by (simp add: coerceOrigin_def new_error_def URL_reference_eval)

theorem coerceOrigin_resolves_witness:
  "URL_reference ''/sign/prepare'' (Some ''null'') = None
   \<and> coerceOrigin URL_reference ''null'' ''/sign/prepare''
        = (Inl (new_error TypeError None) :: unit error + string)
   \<and> URL_reference ''/sign/prepare'' (Some ''https://a.example'')
     = Some \<lparr>href = ''https://a.example/sign/prepare'', origin = ''https://a.example''\<rparr>
   \<and> coerceOrigin URL_reference ''https://a.example'' ''/sign/prepare''
        = (Inr ''https://a.example/sign/prepare'' :: unit error + string)
   \<and> URL_reference ''//b.example/x'' (Some ''https://a.example'')
     = Some \<lparr>href = ''https://b.example/x'', origin = ''https://b.example''\<rparr>
   \<and> coerceOrigin URL_reference ''https://a.example'' ''//b.example/x''
        = (Inl (new_error OriginMismatchError
             (Some (''expected origin https://a.example for URL https://b.example/x, ''
                @ ''see https://github.com/web-eid/web-eid.js#cors for secure CORS setup instructions'')))
           :: unit error + string)"
proof -
  have n: "URL_reference ''/sign/prepare'' (Some ''null'') = None"
    by (simp add: URL_reference_eval)
  have a: "URL_reference ''/sign/prepare'' (Some ''https://a.example'')
     = Some \<lparr>href = ''https://a.example/sign/prepare'', origin = ''https://a.example''\<rparr>"
    by (simp add: URL_reference_eval)
  have b: "URL_reference ''//b.example/x'' (Some ''https://a.example'')
     = Some \<lparr>href = ''https://b.example/x'', origin = ''https://b.example''\<rparr>"
    by (simp add: URL_reference_eval)
  from coerceOrigin_resolves [where ?'b = unit, of URL_reference "''/sign/prepare''" "''null''",
      THEN conjunct1, THEN mp, OF n]
  have m: "coerceOrigin URL_reference ''null'' ''/sign/prepare''
        = (Inl (new_error TypeError None) :: unit error + string)" .
  from coerceOrigin_resolves [where ?'b = unit, of URL_reference "''/sign/prepare''" "''https://a.example''"
      "\<lparr>href = ''https://a.example/sign/prepare'', origin = ''https://a.example''\<rparr>",
      THEN conjunct2, THEN conjunct1, THEN mp, OF a, THEN conjunct1]
  have c: "coerceOrigin URL_reference ''https://a.example'' ''/sign/prepare''
        = (Inr ''https://a.example/sign/prepare'' :: unit error + string)" by simp
  from coerceOrigin_resolves [where ?'b = unit, of URL_reference "''//b.example/x''" "''https://a.example''"
      "\<lparr>href = ''https://b.example/x'', origin = ''https://b.example''\<rparr>",
      THEN conjunct2, THEN conjunct1, THEN mp, OF b, THEN conjunct2]
  have d: "coerceOrigin URL_reference ''https://a.example'' ''//b.example/x''
        = (Inl (new_error OriginMismatchError
             (Some (''expected origin https://a.example for URL https://b.example/x, ''
                @ ''see https://github.com/web-eid/web-eid.js#cors for secure CORS setup instructions'')))
           :: unit error + string)" by simp
  from n m a b c d show ?thesis by blast
qed

text \<open>
  The origin of a page with an opaque origin is the string \<open>null\<close>, which is no base:
  the URL constructor throws, and \<open>coerceOrigin\<close> neither returns a URL nor throws an
  OriginMismatchError.
\<close>

theorem coerceOrigin_resolves_counterexample:
  "URL_reference ''/path'' (Some ''null'') = None
   \<and> coerceOrigin URL_reference ''null'' ''/path''
        = (Inl (new_error TypeError None) :: unit error + string)
   \<and> kind (new_error TypeError None :: unit error) = TypeError
   \<and> TypeError \<noteq> OriginMismatchError"
  by (simp add: coerceOrigin_def new_error_def URL_reference_eval)

text \<open>The reference constructor parses the \<open>href\<close> of a URL it resolved to that URL.\<close>

lemma toLowerChar_letters: "c \<in> letters \<Longrightarrow> toLowerChar c \<in> letters"
  by (auto simp: letters_def toLowerChar_def)

lemma toLowerChar_other: "c \<notin> letters \<Longrightarrow> toLowerChar c = c"
  by (auto simp: letters_def toLowerChar_def)

lemma toLowerChar_idem: "toLowerChar (toLowerChar c) = toLowerChar c"
  by (auto simp: toLowerChar_def)

lemma toLocaleLowerCase_idem: "toLocaleLowerCase (toLocaleLowerCase s) = toLocaleLowerCase s"
  by (simp add: toLocaleLowerCase_def toLowerChar_idem)

lemma toLowerChar_eq_iff:
  assumes "d \<notin> letters"
  shows "toLowerChar c = d \<longleftrightarrow> c = d"
  using assms toLowerChar_letters [of c] toLowerChar_other [of c] by (cases "c \<in> letters") auto

lemma split_on_lower:
  assumes "d \<notin> letters"
  shows "split_on d (toLocaleLowerCase s) = map toLocaleLowerCase (split_on d s)"
proof (induction s)
  case Nil
  then show ?case by (simp add: toLocaleLowerCase_def)
next
  case (Cons c s)
  then show ?case
    using toLowerChar_eq_iff [OF assms, of c]
    by (auto simp: toLocaleLowerCase_def split: list.splits)
qed

lemma split_on_not_Nil: "split_on d s \<noteq> []"
  by (induction s) (auto split: list.splits)

lemma simple_host_lower:
  assumes "simple_host h"
  shows "simple_host (toLocaleLowerCase h)"
proof -
  have dot: "CHR ''.'' \<notin> letters" by (simp add: letters_def)
  let ?labels = "split_on (CHR ''.'') h"
  from assms have all: "list_all (\<lambda>l. l \<noteq> [] \<and> set l \<subseteq> letters \<union> digits \<union> {CHR ''-''}
                 \<and> \<not> startsWith (toLocaleLowerCase l) ''xn--'') ?labels"
    and lst: "hd (last ?labels) \<in> letters"
    by (simp_all add: simple_host_def Let_def)
  have keep: "set (toLocaleLowerCase l) \<subseteq> letters \<union> digits \<union> {CHR ''-''}"
    if "set l \<subseteq> letters \<union> digits \<union> {CHR ''-''}" for l
  proof
    fix x assume "x \<in> set (toLocaleLowerCase l)"
    then obtain c where c: "c \<in> set l" and x: "x = toLowerChar c"
      by (auto simp: toLocaleLowerCase_def)
    from that c have "c \<in> letters \<union> digits \<union> {CHR ''-''}" by blast
    with x toLowerChar_letters [of c] toLowerChar_other [of c]
    show "x \<in> letters \<union> digits \<union> {CHR ''-''}"
      by (cases "c \<in> letters") auto
  qed
  from all keep
  have all': "list_all (\<lambda>l. l \<noteq> [] \<and> set l \<subseteq> letters \<union> digits \<union> {CHR ''-''}
                 \<and> \<not> startsWith (toLocaleLowerCase l) ''xn--'') (map toLocaleLowerCase ?labels)"
    by (auto simp: list_all_iff toLocaleLowerCase_idem) (simp add: toLocaleLowerCase_def)
  from all split_on_not_Nil [of "CHR ''.''" h] have ne: "last ?labels \<noteq> []"
    by (simp add: list_all_iff)
  have "hd (last (map toLocaleLowerCase ?labels)) = toLowerChar (hd (last ?labels))"
    using split_on_not_Nil [of "CHR ''.''" h] ne
    by (simp add: last_map toLocaleLowerCase_def hd_map)
  with lst toLowerChar_letters have lst': "hd (last (map toLocaleLowerCase ?labels)) \<in> letters"
    by simp
  from all' lst' show ?thesis
    by (simp add: simple_host_def Let_def split_on_lower [OF dot])
qed

lemma split_on_chars:
  "x \<in> set s \<Longrightarrow> x = d \<or> (\<exists>l \<in> set (split_on d s). x \<in> set l)"
proof (induction s)
  case Nil
  then show ?case by simp
next
  case (Cons c s)
  obtain y ys where sp: "split_on d s = y # ys"
    using split_on_not_Nil [of d s] by (cases "split_on d s") auto
  show ?case
  proof (cases "x = c")
    case True
    with sp show ?thesis by auto
  next
    case False
    with Cons.prems have "x \<in> set s" by simp
    from Cons.IH [OF this] sp show ?thesis by auto
  qed
qed

lemma simple_host_chars:
  assumes "simple_host h"
  shows "set h \<subseteq> letters \<union> digits \<union> {CHR ''-'', CHR ''.''}"
proof
  fix x assume "x \<in> set h"
  from split_on_chars [OF this, of "CHR ''.''"] assms
  show "x \<in> letters \<union> digits \<union> {CHR ''-'', CHR ''.''}"
    by (auto simp: simple_host_def Let_def list_all_iff)
qed

lemma simple_host_not_Nil: "simple_host h \<Longrightarrow> h \<noteq> []"
  by (auto simp: simple_host_def)

lemma simple_path_slash: "simple_path ''/''"
  by (simp add: simple_path_def path_chars_def)

lemma split_on_append:
  "split_on d (xs @ d # ys) = split_on d xs @ split_on d ys"
proof (induction xs)
  case Nil
  then show ?case by simp
next
  case (Cons x xs)
  obtain y ys' where sp: "split_on d xs = y # ys'"
    using split_on_not_Nil [of d xs] by (cases "split_on d xs") auto
  with Cons show ?case by auto
qed

lemma directory_decompose:
  assumes "hd p = CHR ''/''" and "p \<noteq> []"
  shows "\<exists>front rest. p = front @ CHR ''/'' # rest \<and> directory p = front @ ''/''"
proof -
  let ?t = "takeWhile (\<lambda>c. c \<noteq> CHR ''/'') (rev p)"
  let ?d = "dropWhile (\<lambda>c. c \<noteq> CHR ''/'') (rev p)"
  have "CHR ''/'' \<in> set (rev p)" using assms by (cases p) auto
  then have "?d \<noteq> []" by (auto simp: dropWhile_eq_Nil_conv)
  moreover have "hd ?d = CHR ''/''" if "?d \<noteq> []"
    using hd_dropWhile [OF that] by simp
  ultimately obtain r where r: "?d = CHR ''/'' # r"
    by (cases ?d) auto
  have "rev p = ?t @ ?d" by simp
  with r have "rev (rev p) = rev (?t @ CHR ''/'' # r)" by simp
  then have "p = rev r @ CHR ''/'' # rev ?t" by simp
  moreover from r have "directory p = rev r @ ''/''" by (simp add: directory_def)
  ultimately show ?thesis by blast
qed

lemma simple_path_relative:
  assumes "simple_path p" and "simple_path (CHR ''/'' # main)"
  shows "simple_path (directory p @ main)"
proof -
  from assms(1) have h: "hd p = CHR ''/''" and ne: "p \<noteq> []" by (simp_all add: simple_path_def)
  from directory_decompose [OF h ne] obtain front rest
    where p: "p = front @ CHR ''/'' # rest" and d: "directory p = front @ ''/''" by blast
  from assms(1) have segs: "list_all (\<lambda>seg. seg \<noteq> ''.'' \<and> seg \<noteq> ''..'') (split_on (CHR ''/'') front)"
    by (simp add: simple_path_def p split_on_append)
  from assms(2) have segs': "list_all (\<lambda>seg. seg \<noteq> ''.'' \<and> seg \<noteq> ''..'') (split_on (CHR ''/'') main)"
    by (simp add: simple_path_def)
  from assms have chars: "set (front @ CHR ''/'' # main) \<subseteq> path_chars \<union> {CHR ''.''}"
    by (auto simp: simple_path_def p)
  have hd': "hd (front @ CHR ''/'' # main) = CHR ''/''"
    using h p by (cases front) auto
  from segs segs' chars hd' show ?thesis
    by (simp add: d simple_path_def split_on_append)
qed

lemma parse_authority_parts:
  assumes "parse_authority s = Some (h, p)"
  shows "simple_host h \<and> toLocaleLowerCase h = h \<and> simple_path p"
proof -
  let ?h = "takeWhile (\<lambda>c. c \<noteq> CHR ''/'') s"
  let ?p = "dropWhile (\<lambda>c. c \<noteq> CHR ''/'') s"
  from assms have c: "simple_host ?h \<and> (?p = [] \<or> simple_path ?p)"
    by (simp add: parse_authority_def Let_def split: if_splits)
  with assms have h: "h = toLocaleLowerCase ?h" and p: "p = (if ?p = [] then ''/'' else ?p)"
    by (simp_all add: parse_authority_def Let_def)
  from c have "simple_host h" unfolding h by (intro simple_host_lower) simp
  moreover have "toLocaleLowerCase h = h" unfolding h by (rule toLocaleLowerCase_idem)
  moreover from c have "simple_path p" unfolding p by (cases "?p = []") (auto simp: simple_path_slash dropWhile_eq_Nil_conv)
  ultimately show ?thesis by blast
qed

lemma split_reference_parts:
  assumes "split_reference u = Some (main, q, f)"
  shows "(case q of None \<Rightarrow> True | Some q' \<Rightarrow> set q' \<subseteq> query_chars)
           \<and> (case f of None \<Rightarrow> True | Some f' \<Rightarrow> set f' \<subseteq> fragment_chars)"
proof -
  obtain front f0 where b1: "break_at (CHR 0x23) u = (front, f0)"
    by (cases "break_at (CHR 0x23) u")
  obtain main0 q0 where b2: "break_at (CHR ''?'') front = (main0, q0)"
    by (cases "break_at (CHR ''?'') front")
  from assms b1 b2 show ?thesis
    by (simp add: split_reference_def split: if_splits)
qed

lemma parse_absolute_plain:
  assumes "parse_absolute u = Some parts"
  shows "plain parts"
proof -
  from assms obtain main q f where s: "split_reference u = Some (main, q, f)"
    by (auto simp: parse_absolute_def split: option.splits)
  with assms obtain h p where a: "parse_authority (drop 3 (dropWhile (\<lambda>c. c \<noteq> CHR '':'') main)) = Some (h, p)"
    and sc: "toLocaleLowerCase (takeWhile (\<lambda>c. c \<noteq> CHR '':'') main) = ''http''
             \<or> toLocaleLowerCase (takeWhile (\<lambda>c. c \<noteq> CHR '':'') main) = ''https''"
    and parts: "parts = \<lparr>url_scheme = toLocaleLowerCase (takeWhile (\<lambda>c. c \<noteq> CHR '':'') main),
                  url_host = h, url_path = p, url_query = q, url_fragment = f\<rparr>"
    by (auto simp: parse_absolute_def Let_def split: option.splits if_splits)
  from parse_authority_parts [OF a] split_reference_parts [OF s] sc parts
  show ?thesis by (simp add: plain_def)
qed

lemma resolve_reference_plain:
  assumes "plain base" and "resolve_reference base u = Some parts"
  shows "plain parts"
proof -
  from assms(2) obtain main q f where s: "split_reference u = Some (main, q, f)"
    by (auto simp: resolve_reference_def split: option.splits)
  note qf = split_reference_parts [OF s]
  consider (same) "main = []"
    | (authority) "main \<noteq> []" "startsWith main ''//''"
    | (absolute_path) "main \<noteq> []" "\<not> startsWith main ''//''" "hd main = CHR ''/''"
    | (relative_path) "main \<noteq> []" "\<not> startsWith main ''//''" "hd main \<noteq> CHR ''/''"
        "simple_path (CHR ''/'' # main)"
    | (other) "main \<noteq> []" "\<not> startsWith main ''//''" "hd main \<noteq> CHR ''/''"
        "\<not> simple_path (CHR ''/'' # main)"
    by blast
  then show ?thesis
  proof cases
    case same
    with assms s qf show ?thesis
      by (auto simp: resolve_reference_def plain_def split: option.splits)
  next
    case authority
    with assms(2) s obtain h p where a: "parse_authority (drop 2 main) = Some (h, p)"
      and parts: "parts = \<lparr>url_scheme = url_scheme base, url_host = h, url_path = p,
                       url_query = q, url_fragment = f\<rparr>"
      by (auto simp: resolve_reference_def split: option.splits)
    from parse_authority_parts [OF a] qf assms(1) parts show ?thesis
      by (simp add: plain_def)
  next
    case absolute_path
    with assms s qf show ?thesis
      by (auto simp: resolve_reference_def plain_def split: if_splits)
  next
    case relative_path
    with assms(2) s
    have parts: "parts = base\<lparr>url_path := directory (url_path base) @ main, url_query := q,
                       url_fragment := f\<rparr>"
      by (simp add: resolve_reference_def)
    from assms(1) have "simple_path (url_path base)" by (simp add: plain_def)
    from simple_path_relative [OF this relative_path(4)] assms(1) qf parts show ?thesis
      by (simp add: plain_def)
  next
    case other
    with assms(2) s have "parse_absolute u = Some parts"
      by (simp add: resolve_reference_def)
    then show ?thesis by (rule parse_absolute_plain)
  qed
qed

lemma break_at_append:
  assumes "c \<notin> set xs"
  shows "break_at c (xs @ (case part of None \<Rightarrow> [] | Some y \<Rightarrow> c # y)) = (xs, part)"
proof -
  from assms have all: "\<forall>x \<in> set xs. x \<noteq> c" by blast
  show ?thesis
  proof (cases part)
    case None
    from all have t: "takeWhile (\<lambda>x. x \<noteq> c) xs = xs"
      and d: "dropWhile (\<lambda>x. x \<noteq> c) xs = []"
      by (simp_all add: takeWhile_eq_all_conv dropWhile_eq_Nil_conv)
    show ?thesis
      unfolding break_at_def None option.case append_Nil2 t d list.case
      by (rule refl)
  next
    case (Some y)
    with all show ?thesis
      by (simp add: break_at_def takeWhile_append2 dropWhile_append2)
  qed
qed

lemma plain_main_chars:
  assumes "plain parts"
  shows "set (url_scheme parts @ ''://'' @ url_host parts @ url_path parts)
           \<subseteq> path_chars \<union> {CHR ''.'', CHR '':''}"
proof -
  from assms have h: "simple_host (url_host parts)" and p: "simple_path (url_path parts)"
    and s: "url_scheme parts = ''http'' \<or> url_scheme parts = ''https''"
    by (simp_all add: plain_def)
  from simple_host_chars [OF h]
  have "set (url_host parts) \<subseteq> path_chars \<union> {CHR ''.'', CHR '':''}"
    by (auto simp: path_chars_def)
  moreover from p have "set (url_path parts) \<subseteq> path_chars \<union> {CHR ''.'', CHR '':''}"
    by (auto simp: simple_path_def)
  moreover from s have "set (url_scheme parts @ ''://'') \<subseteq> path_chars \<union> {CHR ''.'', CHR '':''}"
    by (auto simp: path_chars_def letters_def)
  ultimately show ?thesis by auto
qed

lemma split_reference_href:
  assumes "plain parts"
  shows "split_reference (href (serialize parts))
           = Some (url_scheme parts @ ''://'' @ url_host parts @ url_path parts,
                   url_query parts, url_fragment parts)"
proof -
  let ?main = "url_scheme parts @ ''://'' @ url_host parts @ url_path parts"
  let ?q = "case url_query parts of None \<Rightarrow> [] | Some q \<Rightarrow> CHR ''?'' # q"
  let ?f = "case url_fragment parts of None \<Rightarrow> [] | Some f \<Rightarrow> CHR 0x23 # f"
  note main = plain_main_chars [OF assms]
  have nq: "CHR ''?'' \<notin> path_chars \<union> {CHR ''.'', CHR '':''}"
    and nf: "CHR 0x23 \<notin> path_chars \<union> {CHR ''.'', CHR '':''}"
    by (simp_all add: path_chars_def letters_def digits_def)
  from main nq have q: "CHR ''?'' \<notin> set ?main" by blast
  from main nf have f1: "CHR 0x23 \<notin> set ?main" by blast
  have "CHR 0x23 \<notin> query_chars \<union> {CHR ''?''}"
    by (simp add: query_chars_def path_chars_def letters_def digits_def)
  moreover from assms have "set ?q \<subseteq> query_chars \<union> {CHR ''?''}"
    by (auto simp: plain_def split: option.splits)
  ultimately have f2: "CHR 0x23 \<notin> set ?q" by blast
  from f1 f2 have f: "CHR 0x23 \<notin> set (?main @ ?q)" by simp
  have h: "href (serialize parts) = (?main @ ?q) @ ?f"
    by (simp add: serialize_def)
  from assms have ok: "(case url_query parts of None \<Rightarrow> True | Some q' \<Rightarrow> set q' \<subseteq> query_chars)
      \<and> (case url_fragment parts of None \<Rightarrow> True | Some f' \<Rightarrow> set f' \<subseteq> fragment_chars)"
    by (simp add: plain_def)
  show ?thesis
    unfolding split_reference_def h break_at_append [OF f] prod.case break_at_append [OF q]
    using ok by simp
qed

lemma parse_authority_plain:
  assumes "simple_host h" and "toLocaleLowerCase h = h" and "simple_path p"
  shows "parse_authority (h @ p) = Some (h, p)"
proof -
  from simple_host_chars [OF assms(1)]
  have chars: "set h \<subseteq> letters \<union> digits \<union> {CHR ''-'', CHR ''.''}" .
  have "CHR ''/'' \<notin> letters \<union> digits \<union> {CHR ''-'', CHR ''.''}"
    by (simp add: letters_def digits_def)
  with chars have noslash: "\<forall>c \<in> set h. c \<noteq> CHR ''/''" by blast
  from assms(3) obtain rest where path: "p = CHR ''/'' # rest"
    by (cases p) (auto simp: simple_path_def)
  from noslash have tw: "takeWhile (\<lambda>c. c \<noteq> CHR ''/'') (h @ p) = h"
    by (simp add: path takeWhile_append2 takeWhile_eq_all_conv)
  from noslash have dw: "dropWhile (\<lambda>c. c \<noteq> CHR ''/'') (h @ p) = p"
    by (simp add: path dropWhile_append2)
  from path have pne: "p \<noteq> []" by simp
  show ?thesis
    unfolding parse_authority_def Let_def tw dw
    using assms pne by simp
qed

lemma parse_absolute_href:
  assumes "plain parts"
  shows "parse_absolute (href (serialize parts)) = Some parts"
proof -
  let ?rest = "url_host parts @ url_path parts"
  let ?main = "url_scheme parts @ ''://'' @ ?rest"
  from assms have s: "url_scheme parts = ''http'' \<or> url_scheme parts = ''https''"
    by (simp add: plain_def)
  from s have sch: "toLocaleLowerCase (takeWhile (\<lambda>c. c \<noteq> CHR '':'') ?main) = url_scheme parts"
    and rst: "dropWhile (\<lambda>c. c \<noteq> CHR '':'') ?main = ''://'' @ ?rest"
    by (auto simp: toLocaleLowerCase_def toLowerChar_def)
  have sw: "startsWith (''://'' @ ?rest) ''://''" by (simp add: startsWith_def)
  have d3: "drop 3 (''://'' @ ?rest) = ?rest" by simp
  from assms have a: "parse_authority ?rest = Some (url_host parts, url_path parts)"
    by (intro parse_authority_plain) (simp_all add: plain_def)
  show ?thesis
    unfolding parse_absolute_def split_reference_href [OF assms] option.case prod.case Let_def
      sch rst d3 a
    using s sw by simp
qed

lemma resolve_reference_href:
  assumes "plain parts"
  shows "resolve_reference base (href (serialize parts)) = Some parts"
proof -
  let ?main = "url_scheme parts @ ''://'' @ url_host parts @ url_path parts"
  from assms have s: "url_scheme parts = ''http'' \<or> url_scheme parts = ''https''"
    by (simp add: plain_def)
  from s have ne: "?main \<noteq> []" and ns: "\<not> startsWith ?main ''//''"
    and hd: "hd ?main \<noteq> CHR ''/''"
    by (auto simp: startsWith_def)
  have "CHR '':'' \<in> set ?main" by simp
  moreover have "CHR '':'' \<notin> path_chars \<union> {CHR ''.''}"
    by (simp add: path_chars_def letters_def digits_def)
  ultimately have "\<not> set (CHR ''/'' # ?main) \<subseteq> path_chars \<union> {CHR ''.''}"
    by (meson list.set_intros(2) subsetD)
  then have np: "\<not> simple_path (CHR ''/'' # ?main)"
    unfolding simple_path_def by blast
  show ?thesis
    unfolding resolve_reference_def split_reference_href [OF assms] option.case prod.case
    using ne ns hd np parse_absolute_href [OF assms] by simp
qed

lemma URL_reference_href:
  assumes "URL_reference u (Some base) = Some resolved"
  shows "URL_reference (href resolved) (Some base) = Some resolved"
proof -
  from assms obtain parsedBase where b: "parse_absolute base = Some parsedBase"
    by (auto simp: URL_reference_def split: option.splits)
  with assms obtain parts where r: "resolve_reference parsedBase u = Some parts"
    and s: "resolved = serialize parts"
    by (auto simp: URL_reference_def)
  from resolve_reference_plain [OF parse_absolute_plain [OF b] r] have "plain parts" .
  from resolve_reference_href [OF this, of parsedBase] b s show ?thesis
    by (simp add: URL_reference_def)
qed

lemma URL_reference_no_scheme:
  assumes "CHR '':'' \<notin> set base"
  shows "URL_reference u (Some base) = None"
proof -
  have "parse_absolute base = None"
  proof (cases "split_reference base")
    case None
    then show ?thesis by (simp add: parse_absolute_def)
  next
    case (Some split)
    obtain main q f where sp: "split = (main, q, f)" by (cases split)
    from Some sp have "main = takeWhile (\<lambda>c. c \<noteq> CHR ''?'') (takeWhile (\<lambda>c. c \<noteq> CHR 0x23) base)"
      by (auto simp: split_reference_def break_at_def split: if_splits)
    then have "set main \<subseteq> set base"
      by (metis set_takeWhileD subsetI)
    with assms have "\<forall>c \<in> set main. c \<noteq> CHR '':''" by blast
    then have d: "dropWhile (\<lambda>c. c \<noteq> CHR '':'') main = []"
      by (simp add: dropWhile_eq_Nil_conv)
    show ?thesis
      unfolding parse_absolute_def Some sp option.case prod.case Let_def d
      by (simp add: startsWith_def)
  qed
  then show ?thesis by (simp add: URL_reference_def)
qed

text \<open>
  The forms of a reference, resolved as the platform resolves them: the empty string, a
  relative path, a path with a query, a host without a scheme, a query, a fragment and
  an absolute URL in capital letters; and the two cases without a usable base.
\<close>

lemma URL_reference_examples:
  "URL_reference '''' (Some ''https://a.example/a/b?x=1#f'')
     = Some \<lparr>href = ''https://a.example/a/b?x=1'', origin = ''https://a.example''\<rparr>"
  "URL_reference ''x'' (Some ''https://a.example'')
     = Some \<lparr>href = ''https://a.example/x'', origin = ''https://a.example''\<rparr>"
  "URL_reference ''x/y?z'' (Some ''https://a.example/a/b?x=1#f'')
     = Some \<lparr>href = ''https://a.example/a/x/y?z'', origin = ''https://a.example''\<rparr>"
  "URL_reference ''/x?q=1'' (Some ''https://a.example'')
     = Some \<lparr>href = ''https://a.example/x?q=1'', origin = ''https://a.example''\<rparr>"
  "URL_reference ''//B.example/x'' (Some ''https://a.example'')
     = Some \<lparr>href = ''https://b.example/x'', origin = ''https://b.example''\<rparr>"
  "URL_reference ''?q=1#frag'' (Some ''https://a.example/a/b?x=1#f'')
     = Some \<lparr>href = ''https://a.example/a/b?q=1#frag'', origin = ''https://a.example''\<rparr>"
  "URL_reference (CHR 0x23 # ''frag'') (Some ''https://a.example/a/b?x=1#f'')
     = Some \<lparr>href = ''https://a.example/a/b?x=1'' @ CHR 0x23 # ''frag'', origin = ''https://a.example''\<rparr>"
  "URL_reference ''HTTP://A.Example?q'' (Some ''https://a.example'')
     = Some \<lparr>href = ''http://a.example/?q'', origin = ''http://a.example''\<rparr>"
  "URL_reference ''/x'' (Some ''null'') = None"
  "URL_reference ''/x'' None = None"
  by (simp_all add: URL_reference_eval)

lemma coerceOrigin_again:
  assumes "coerceOrigin URL trustedOrigin u = (Inr coerced :: 'b error + string)"
    and "\<And>resolved. URL u (Some trustedOrigin) = Some resolved
           \<Longrightarrow> URL (href resolved) (Some trustedOrigin) = Some resolved"
  shows "coerceOrigin URL trustedOrigin coerced = (Inr coerced :: 'b error + string)"
proof -
  from assms(1) obtain resolved where r: "URL u (Some trustedOrigin) = Some resolved"
    and o: "trustedOrigin = origin resolved" and c: "coerced = href resolved"
    by (auto simp: coerceOrigin_def split: option.splits if_splits)
  from assms(2) [OF r] have "URL coerced (Some trustedOrigin) = Some resolved"
    by (simp only: c)
  with o c show ?thesis by (simp add: coerceOrigin_def)
qed

text \<open>
  C9. \<open>coerceOrigin\<close> is idempotent where it succeeds: coercing its result again gives
  the same result. This holds on every platform whose URL constructor parses the
  \<open>href\<close> of the URL it resolved to that same URL, the round trip the URL standard
  promises, and on the reference constructor for every origin and every URL.
\<close>

theorem coerceOrigin_idempotent:
  "((\<forall>resolved. URL u (Some trustedOrigin) = Some resolved
        \<longrightarrow> URL (href resolved) (Some trustedOrigin) = Some resolved)
      \<and> coerceOrigin URL trustedOrigin u = (Inr coerced :: 'b error + string)
    \<longrightarrow> coerceOrigin URL trustedOrigin coerced = (Inr coerced :: 'b error + string))
   \<and> (coerceOrigin URL_reference trustedOrigin' u' = (Inr coerced' :: 'b error + string)
    \<longrightarrow> coerceOrigin URL_reference trustedOrigin' coerced' = (Inr coerced' :: 'b error + string))"
proof (intro conjI impI)
  assume "(\<forall>resolved. URL u (Some trustedOrigin) = Some resolved
        \<longrightarrow> URL (href resolved) (Some trustedOrigin) = Some resolved)
      \<and> coerceOrigin URL trustedOrigin u = (Inr coerced :: 'b error + string)"
  then show "coerceOrigin URL trustedOrigin coerced = (Inr coerced :: 'b error + string)"
    using coerceOrigin_again [of URL trustedOrigin u coerced] by blast
next
  assume "coerceOrigin URL_reference trustedOrigin' u' = (Inr coerced' :: 'b error + string)"
  then show "coerceOrigin URL_reference trustedOrigin' coerced' = (Inr coerced' :: 'b error + string)"
    using coerceOrigin_again [of URL_reference trustedOrigin' u' coerced'] URL_reference_href
    by blast
qed

theorem coerceOrigin_idempotent_witness:
  "coerceOrigin URL_reference ''https://a.example'' ''/path''
     = (Inr ''https://a.example/path'' :: unit error + string)
   \<and> coerceOrigin URL_reference ''https://a.example'' ''https://a.example/path''
       = (Inr ''https://a.example/path'' :: unit error + string)
   \<and> coerceOrigin URL_reference ''https://a.example'' ''HTTPS://A.Example''
       = (Inr ''https://a.example/'' :: unit error + string)
   \<and> coerceOrigin URL_reference ''https://a.example'' ''https://a.example/''
       = (Inr ''https://a.example/'' :: unit error + string)"
proof -
  have a: "coerceOrigin URL_reference ''https://a.example'' ''/path''
             = (Inr ''https://a.example/path'' :: unit error + string)"
    and c: "coerceOrigin URL_reference ''https://a.example'' ''HTTPS://A.Example''
             = (Inr ''https://a.example/'' :: unit error + string)"
    by (simp_all add: coerceOrigin_def new_error_def URL_reference_eval)
  have b: "\<forall>resolved. URL_reference ''/path'' (Some ''https://a.example'') = Some resolved
           \<longrightarrow> URL_reference (href resolved) (Some ''https://a.example'') = Some resolved"
    by (auto simp add: URL_reference_eval)
  from coerceOrigin_idempotent [where ?'b = unit, THEN conjunct1, THEN mp, OF conjI [OF b a]]
  have d: "coerceOrigin URL_reference ''https://a.example'' ''https://a.example/path''
       = (Inr ''https://a.example/path'' :: unit error + string)" .
  from coerceOrigin_idempotent [where ?'b = unit, THEN conjunct2, THEN mp, OF c]
  have e: "coerceOrigin URL_reference ''https://a.example'' ''https://a.example/''
       = (Inr ''https://a.example/'' :: unit error + string)" .
  from a c d e show ?thesis by blast
qed

subsection \<open>WebServerService.fetch\<close>

text \<open>
  C5. When the coerced URL (against the CORS origin if set, else the sender origin) does
  not start with \<open>https://\<close> in any letter case, \<open>fetch\<close> throws ProtocolInsecureError
  and has made no call to the browser: no permission query, no listener, no request.
\<close>

theorem fetch_ProtocolInsecure:
  assumes "coerceOrigin URL (baseOrigin this) fetchUrl = (Inr coerced :: 'b error + string)"
    and "\<not> startsWith (toLocaleLowerCase coerced) ''https://''"
  shows "fetch URL this fetchUrl init (env :: 'b fetch_env)
           = (Thrown (new_error ProtocolInsecureError (Some (''HTTPS required for '' @ coerced))),
              this, [])"
  using assms by (simp add: fetch_def)

theorem fetch_ProtocolInsecure_witness:
  "coerceOrigin URL_reference (baseOrigin insecure_page) ''/x'' = (Inr ''http://a.example/x'' :: json_object error + string)
   \<and> \<not> startsWith (toLocaleLowerCase ''http://a.example/x'') ''https://''
   \<and> fetch URL_reference insecure_page ''/x'' (None :: unit RequestInit option) (browser True ''AA'' [] (Returned (relayed 200)))
       = (Thrown (new_error ProtocolInsecureError (Some ''HTTPS required for http://a.example/x'')),
          insecure_page, [])"
proof -
  have a: "coerceOrigin URL_reference (baseOrigin insecure_page) ''/x'' = (Inr ''http://a.example/x'' :: json_object error + string)"
    by (simp add: coerceOrigin_def baseOrigin_def truthy_def insecure_page_def page_def URL_reference_eval)
  have b: "\<not> startsWith (toLocaleLowerCase ''http://a.example/x'') ''https://''"
    by (simp add: startsWith_def toLocaleLowerCase_def toLowerChar_def)
  from fetch_ProtocolInsecure [OF a b, of None "browser True ''AA'' [] (Returned (relayed 200))"] a b
  show ?thesis by simp
qed

lemma fetch_this: "fst (snd (fetch URL this fetchUrl init env)) = this"
  by (simp add: fetch_def Let_def split: sum.splits completion.splits option.splits)

lemma enableCors_this:
  fixes settled :: "(unit, 'b error) completion" and effects :: "'r fetch_effect list"
  assumes "enableCors URL cast this action' corsConfigUrl env = (settled, this', effects)"
  shows "this' = this \<or> (\<exists>negotiated. this' = this\<lparr>corsOrigin := Some negotiated\<rparr>)"
proof (cases "fetch URL this (projr (coerceOrigin URL (senderOrigin this) corsConfigUrl :: 'b error + string))
                (None :: 'r RequestInit option) env")
  case (fields settled1 this1 effects1)
  from fetch_this [of URL this "projr (coerceOrigin URL (senderOrigin this) corsConfigUrl :: 'b error + string)"
      "None :: 'r RequestInit option" env]
    fields have "this1 = this" by simp
  with fields assms show ?thesis
    by (auto simp: enableCors_def Let_def split: option.splits sum.splits completion.splits if_splits)
qed

text \<open>
  C10. A call of \<open>fetch\<close> leaves every field of the object as it was, however the call
  settles; \<open>enableCors\<close>, the one method that assigns \<open>corsOrigin\<close>, leaves the
  other fields as they were.
\<close>

theorem fetch_frame:
  "fst (snd (fetch URL this fetchUrl init env)) = this
   \<and> senderOrigin (fst (snd (enableCors URL cast this action' corsConfigUrl env
        :: (unit, 'b error) completion \<times> WebServerService \<times> 'r fetch_effect list))) = senderOrigin this
   \<and> senderTabId (fst (snd (enableCors URL cast this action' corsConfigUrl env
        :: (unit, 'b error) completion \<times> WebServerService \<times> 'r fetch_effect list))) = senderTabId this
   \<and> fingerprints (fst (snd (enableCors URL cast this action' corsConfigUrl env
        :: (unit, 'b error) completion \<times> WebServerService \<times> 'r fetch_effect list))) = fingerprints this"
proof -
  obtain settled this' and effects :: "'r fetch_effect list"
    where e: "enableCors URL cast this action' corsConfigUrl env = (settled, this', effects)"
    by (cases "enableCors URL cast this action' corsConfigUrl env :: (unit, 'b error) completion \<times> WebServerService \<times> 'r fetch_effect list")
  from enableCors_this [OF e] e fetch_this [of URL this fetchUrl init env]
  show ?thesis by auto
qed

text \<open>
  C8. A \<open>fetch\<close> with the webRequest permission granted, for which the browser reports a
  secure connection with a certificate whose SHA-256 fingerprint is \<open>AA\<close>, and whose
  relayed response is \<open>ok\<close>: the call returns the relayed response with
  \<open>certificateInfo\<close> null, not with the certificate of the connection. The statements
  that assign \<open>certificateInfo\<close> are inside the block comment of the listener; nothing
  else assigns it after its initialisation with null.
\<close>

theorem fetch_certificateInfo_null:
  "hasWebRequestPermission (browser True ''AA'' [] (Returned (relayed 200)))
   \<and> getSecurityInfo (browser True ''AA'' [] (Returned (relayed 200))) ''1''
       = Inr (secure_connection ''AA'')
   \<and> certificates (secure_connection ''AA'') = [\<lparr>fingerprint = \<lparr>sha1 = [], sha256 = ''AA''\<rparr>\<rparr>]
   \<and> fst (fetch URL_reference page ''/x'' (None :: unit RequestInit option)
            (browser True ''AA'' [] (Returned (relayed 200))))
       = Returned (with_certificateInfo None (relayed 200))
   \<and> certificateInfo (with_certificateInfo None (relayed 200)) = None"
  by (simp add: fetch_eval example_defs URL_reference_eval)

lemma listener_keeps_mismatch:
  assumes "fetchError = Some e" and "kind e = OriginMismatchError"
  shows "\<exists>e'. snd (onHeadersReceivedListener this env details fetchError) = Some e'
           \<and> kind e' = OriginMismatchError"
  using assms by (simp add: onHeadersReceivedListener_def new_error_def split: sum.splits)

lemma deliver_keeps_mismatch:
  "fetchError = Some e \<Longrightarrow> kind e = OriginMismatchError
   \<Longrightarrow> \<exists>e'. fst (deliver this env events fetchError) = Some e' \<and> kind e' = OriginMismatchError"
proof (induction events arbitrary: fetchError e)
  case Nil
  then show ?case by simp
next
  case (Cons details events)
  from listener_keeps_mismatch [OF Cons.prems, of this env details]
  obtain e' where s: "snd (onHeadersReceivedListener this env details fetchError) = Some e'"
    and k: "kind e' = OriginMismatchError" by blast
  from Cons.IH [OF s k] show ?case
    by (auto split: prod.splits)
qed

lemma deliver_mismatch:
  assumes "details \<in> set events"
    and "getSecurityInfo env (requestId details) = Inr securityInfo"
    and "truthy (corsOrigin this)"
    and "accessControlAllowOrigin details \<noteq> Some (senderOrigin this)"
  shows "\<exists>e. fst (deliver this env events fetchError) = Some e \<and> kind e = OriginMismatchError"
  using assms(1)
proof (induction events arbitrary: fetchError)
  case Nil
  then show ?case by simp
next
  case (Cons first events)
  show ?case
  proof (cases "first = details")
    case True
    with assms(2-4) obtain e where s: "snd (onHeadersReceivedListener this env first fetchError) = Some e"
      and k: "kind e = OriginMismatchError"
      by (auto simp: onHeadersReceivedListener_def new_error_def)
    from deliver_keeps_mismatch [OF s k, of this env events] show ?thesis
      by (auto split: prod.splits)
  next
    case False
    with Cons.prems have "details \<in> set events" by simp
    from Cons.IH [OF this, of "snd (onHeadersReceivedListener this env first fetchError)"]
    show ?thesis
      by (auto split: prod.splits)
  qed
qed

text \<open>
  C2, as amended. With a CORS origin set, the webRequest permission granted, and the
  listener shown response headers whose \<open>Access-Control-Allow-Origin\<close> is absent or
  differs from the sender origin (for a request whose security info the browser
  delivers), a relayed fetch that resolves with a response makes \<open>fetch\<close> throw an
  OriginMismatchError, whatever the status of the response.
\<close>

theorem fetch_OriginMismatch:
  assumes "truthy (corsOrigin this)"
    and "coerceOrigin URL (baseOrigin this) fetchUrl = (Inr coerced :: 'b error + string)"
    and "startsWith (toLocaleLowerCase coerced) ''https://''"
    and "permissions_contains env = Inr True"
    and "details \<in> set (onHeadersReceived env)"
    and "getSecurityInfo env (requestId details) = Inr securityInfo"
    and "accessControlAllowOrigin details \<noteq> Some (senderOrigin this)"
    and "sendMessage env = Returned response'"
  shows "\<exists>e. fst (fetch URL this fetchUrl init (env :: 'b fetch_env)) = Thrown e
           \<and> kind e = OriginMismatchError"
proof -
  from deliver_mismatch [OF assms(5,6,1,7), of None] assms(4)
  obtain e where l: "fst (listen this env) = Some e" and k: "kind e = OriginMismatchError"
    by (auto simp: listen_def hasWebRequestPermission_def)
  from assms(2,3,8) l k show ?thesis
    by (simp add: fetch_def Let_def)
qed

theorem fetch_OriginMismatch_witness:
  "truthy (corsOrigin page_with_cors)
   \<and> accessControlAllowOrigin (headers_event []) \<noteq> Some (senderOrigin page_with_cors)
   \<and> ok (relayed 200)
   \<and> (\<exists>e. fst (fetch URL_reference page_with_cors ''/x'' (None :: unit RequestInit option)
                 (browser True ''AA'' [] (Returned (relayed 200)))) = Thrown e
         \<and> kind e = OriginMismatchError)
   \<and> \<not> ok (relayed 500)
   \<and> (\<exists>e. fst (fetch URL_reference page_with_cors ''/x'' (None :: unit RequestInit option)
                 (browser True ''AA'' [] (Returned (relayed 500)))) = Thrown e
         \<and> kind e = OriginMismatchError)"
proof -
  have t: "truthy (corsOrigin page_with_cors)"
    by (simp add: truthy_def example_defs)
  have c: "coerceOrigin URL_reference (baseOrigin page_with_cors) ''/x''
             = (Inr ''https://cors.example/x'' :: json_object error + string)"
    by (simp add: coerceOrigin_def baseOrigin_def truthy_def example_defs URL_reference_eval)
  have h: "startsWith (toLocaleLowerCase ''https://cors.example/x'') ''https://''"
    by (simp add: startsWith_def toLocaleLowerCase_def toLowerChar_def)
  have a: "accessControlAllowOrigin (headers_event []) \<noteq> Some (senderOrigin page_with_cors)"
    by (simp add: accessControlAllowOrigin_def example_defs)
  have r: "ok (relayed 200)" "\<not> ok (relayed 500)"
    by (simp_all add: relayed_def)
  have "\<exists>e. fst (fetch URL_reference page_with_cors ''/x'' (None :: unit RequestInit option)
                 (browser True ''AA'' [] (Returned (relayed code)))) = Thrown e
         \<and> kind e = OriginMismatchError" for code
    by (rule fetch_OriginMismatch [OF t c h _ _ _ a, where securityInfo = "secure_connection ''AA''"])
       (simp_all add: browser_def)
  with t a r show ?thesis by blast
qed

text \<open>
  Without the webRequest permission no listener is registered: the header is absent
  and \<open>fetch\<close> returns the response.
\<close>

theorem fetch_OriginMismatch_counterexample:
  "truthy (corsOrigin page_with_cors)
   \<and> accessControlAllowOrigin (headers_event []) = None
   \<and> fst (fetch URL_reference page_with_cors ''/x'' (None :: unit RequestInit option)
            (browser False ''AA'' [] (Returned (relayed 200))))
       = Returned (with_certificateInfo None (relayed 200))"
  by (simp add: fetch_eval example_defs URL_reference_eval)

subsection \<open>The fingerprint sequence\<close>

text \<open>
  C1. Two \<open>fetch\<close> calls in one session, with the webRequest permission granted; the
  browser reports a certificate with the fingerprint \<open>AA\<close> in the first call and one
  with the fingerprint \<open>BB\<close> in the second. The second call does not fail with a
  CertificateChangedError: both calls return the relayed response with its body, and
  the fingerprint sequence of the service is empty afterwards. The statements that
  record the fingerprint and compare it with the recorded ones are inside the block
  comment of the listener.
\<close>

theorem fetch_divergent_fingerprint:
  "hasWebRequestPermission (browser True ''BB'' [] (Returned (relayed 200)))
   \<and> getSecurityInfo (browser True ''AA'' [] (Returned (relayed 200))) ''1''
     = Inr (secure_connection ''AA'')
   \<and> getSecurityInfo (browser True ''BB'' [] (Returned (relayed 200))) ''1''
     = Inr (secure_connection ''BB'')
   \<and> sha256 (fingerprint (hd (certificates (secure_connection ''AA''))))
       \<noteq> sha256 (fingerprint (hd (certificates (secure_connection ''BB''))))
   \<and> session URL_reference page
       [(''/x'', None :: unit RequestInit option, browser True ''AA'' [] (Returned (relayed 200))),
        (''/x'', None, browser True ''BB'' [] (Returned (relayed 200)))]
     = ([Returned (with_certificateInfo None (relayed 200)),
         Returned (with_certificateInfo None (relayed 200))], page)
   \<and> body (with_certificateInfo None (relayed 200)) = [(''hash'', ''0a''), (''algorithm'', ''SHA-256'')]
   \<and> fingerprints page = []"
  by (simp add: fetch_eval example_defs URL_reference_eval)

subsection \<open>sign\<close>

lemmas sign_eval =
  sign_def sign_try_def sign_until_signature_def sign_connect_def sign_certificate_def
  sign_prepare_def sign_signature_def sign_finalize_def andThen_def resolve_def reject_def
  race_def raced_def construct_WebServerService_def construct_NativeAppService_def
  on_channel_def connect_def send_def close_def origin_of_def sender_origin_def
  service_enableCors_def service_fetch_def post_json_def pick_def initial_state_def
  new_NativeAppService_def new_WebServerService_def example_platform_def world_def

text \<open>Every statement of the try block keeps the invariant.\<close>

lemma keeps_andThen:
  assumes "keeps m" and "\<And>a. keeps (f a)"
  shows "keeps (andThen m f)"
proof -
  have "held_unclosed (snd (andThen m f st))" if h: "held_unclosed st" for st
  proof (cases "m st")
    case (Pair settled st')
    from assms(1) h Pair have h': "held_unclosed st'" by (auto simp: keeps_def)
    show ?thesis
    proof (cases settled)
      case (Returned a)
      from assms(2) [of a] h' have "held_unclosed (snd (f a st'))" by (simp add: keeps_def)
      with Pair Returned show ?thesis by (simp add: andThen_def)
    next
      case (Thrown e)
      with Pair h' show ?thesis by (simp add: andThen_def)
    next
      case Pending
      with Pair h' show ?thesis by (simp add: andThen_def)
    qed
  qed
  then show ?thesis by (simp add: keeps_def)
qed

lemma keeps_resolve: "keeps (resolve a)"
  by (simp add: keeps_def resolve_def)

lemma keeps_reject: "keeps (reject e)"
  by (simp add: keeps_def reject_def)

lemma keeps_raced: "keeps m \<Longrightarrow> keeps (raced m timer_first e)"
  by (auto simp: keeps_def raced_def split: prod.splits)

lemma held_unclosed_same:
  assumes "held_unclosed st" and "nativeAppService st' = nativeAppService st"
    and "channels st' = channels st"
  shows "held_unclosed st'"
  using assms by (auto simp: held_unclosed_def split: option.splits)

lemma keeps_construct_WebServerService: "keeps (construct_WebServerService P sender)"
proof -
  have "held_unclosed (snd (construct_WebServerService P sender st))" if h: "held_unclosed st" for st
    by (cases "new_WebServerService (new_URL P) (getSenderTabId P) (getSenderUrl P) sender")
       (auto simp: construct_WebServerService_def intro: held_unclosed_same [OF h])
  then show ?thesis by (simp add: keeps_def)
qed

lemma keeps_construct_NativeAppService: "keeps construct_NativeAppService"
  by (auto simp: keeps_def construct_NativeAppService_def held_unclosed_def new_NativeAppService_def
        split: option.splits)

lemma held_unclosed_on_channel:
  assumes "held_unclosed st" and "\<And>c. close_calls (f c) = close_calls c"
  shows "held_unclosed (on_channel f st)"
proof (cases "nativeAppService st")
  case None
  with assms(1) show ?thesis by (simp add: on_channel_def)
next
  case (Some i)
  from assms(1) have all: "list_all (\<lambda>c. close_calls c = 0) (channels st)"
    and len: "Suc i = length (channels st)"
    by (simp_all add: held_unclosed_def Some)
  from all have "close_calls (channels st ! i) = 0" using len
    by (simp add: list_all_length)
  with all assms(2) len have "list_all (\<lambda>c. close_calls c = 0) ((channels st)[i := f (channels st ! i)])"
    by (simp add: list_all_length nth_list_update)
  with len Some show ?thesis by (simp add: on_channel_def held_unclosed_def)
qed

lemma keeps_connect: "keeps (connect answer)"
  by (auto simp: keeps_def connect_def held_unclosed_on_channel split: option.splits)

lemma keeps_send: "keeps (send request answer)"
  by (auto simp: keeps_def send_def held_unclosed_on_channel split: option.splits)

lemma keeps_origin_of: "keeps (origin_of P u)"
  by (auto simp: keeps_def origin_of_def split: option.splits)

lemma keeps_sender_origin: "keeps (sender_origin P sender)"
  using keeps_origin_of [of P]
  by (auto simp: keeps_def sender_origin_def split: sum.splits)

lemma keeps_service_enableCors: "keeps (service_enableCors P action' corsConfigUrl env)"
proof -
  have "held_unclosed (snd (service_enableCors P action' corsConfigUrl env st))"
    if h: "held_unclosed st" for st
    using h
    by (auto simp: service_enableCors_def split: option.splits prod.splits
          intro: held_unclosed_same [OF h])
  then show ?thesis by (simp add: keeps_def)
qed

lemma keeps_service_fetch: "keeps (service_fetch P fetchUrl init env)"
proof -
  have "held_unclosed (snd (service_fetch P fetchUrl init env st))"
    if h: "held_unclosed st" for st
    using h
    by (auto simp: service_fetch_def split: option.splits prod.splits
          intro: held_unclosed_same [OF h])
  then show ?thesis by (simp add: keeps_def)
qed

lemma keeps_sign_connect: "keeps (sign_connect P getCorsConfigUrl sender env)"
  unfolding sign_connect_def
  by (intro keeps_andThen keeps_construct_WebServerService keeps_construct_NativeAppService
        keeps_connect)
     (simp add: keeps_service_enableCors keeps_resolve)

lemma keeps_sign_certificate: "keeps (sign_certificate P postPrepareSigningUrl lang env)"
  unfolding sign_certificate_def
  by (intro keeps_andThen keeps_origin_of keeps_raced keeps_send)
     (simp add: keeps_reject keeps_resolve)

lemma keeps_sign_prepare: "keeps (sign_prepare P postPrepareSigningUrl headers' env selected)"
  unfolding sign_prepare_def
  by (intro keeps_raced keeps_service_fetch)

lemma keeps_sign_signature:
  "keeps (sign_signature P sender lang env certificate' prepareDocumentResult)"
  unfolding sign_signature_def
  by (intro keeps_andThen keeps_construct_NativeAppService keeps_connect keeps_sender_origin
        keeps_raced keeps_send)
     (simp add: keeps_reject keeps_resolve)

lemma keeps_sign_finalize:
  "keeps (sign_finalize P postFinalizeSigningUrl headers' env prepareDocumentResult signature')"
  unfolding sign_finalize_def
  by (intro keeps_andThen keeps_raced keeps_service_fetch keeps_resolve)

lemma keeps_sign_try:
  "keeps (sign_try P postPrepareSigningUrl postFinalizeSigningUrl getCorsConfigUrl headers'
            sender lang env)"
  unfolding sign_try_def sign_until_signature_def
  by (intro keeps_andThen keeps_sign_connect keeps_sign_certificate keeps_sign_prepare
        keeps_sign_signature keeps_sign_finalize keeps_resolve)

lemma held_unclosed_initial: "held_unclosed initial_state"
  by (simp add: held_unclosed_def initial_state_def)

lemma close_held_unclosed:
  assumes "held_unclosed st"
  shows "nativeAppService (close st) = nativeAppService st"
    and "nativeAppService st = None \<Longrightarrow> channels (close st) = []"
    and "nativeAppService st = Some i
         \<Longrightarrow> map close_calls (channels (close st)) = replicate i 0 @ [1]"
proof -
  show "nativeAppService (close st) = nativeAppService st"
    by (simp add: close_def on_channel_def split: option.splits)
  show "channels (close st) = []" if "nativeAppService st = None"
    using that assms by (simp add: close_def on_channel_def held_unclosed_def)
  show "map close_calls (channels (close st)) = replicate i 0 @ [1]" if s: "nativeAppService st = Some i"
  proof -
    from assms s have len: "Suc i = length (channels st)"
      and all: "list_all (\<lambda>c. close_calls c = 0) (channels st)"
      by (simp_all add: held_unclosed_def)
    have "map close_calls (channels (close st)) ! j = (replicate i 0 @ [1]) ! j"
      if "j < Suc i" for j
      using that len all s
      by (cases "j = i")
         (auto simp: close_def on_channel_def nth_append list_all_length nth_list_update)
    moreover have "length (map close_calls (channels (close st))) = Suc i"
      using len s by (simp add: close_def on_channel_def)
    ultimately show ?thesis
      by (intro nth_equalityI) auto
  qed
qed

lemma sign_connect_returned:
  assumes "sign_connect P getCorsConfigUrl sender env initial_state = (Returned nativeAppStatus, st)"
  shows "nativeAppService st = Some 0" and "map close_calls (channels st) = [0]"
  using assms
  by (auto simp: sign_connect_def andThen_def construct_WebServerService_def
        construct_NativeAppService_def service_enableCors_def resolve_def connect_def
        on_channel_def initial_state_def new_NativeAppService_def
        split: sum.splits option.splits prod.splits completion.splits if_splits)

lemma sign_certificate_late:
  assumes "nativeAppService st = Some i"
    and "new_URL P postPrepareSigningUrl None = Some parsed"
    and "certificate_timer_first env \<or> certificate_reply env = Pending"
  shows "sign_certificate P postPrepareSigningUrl lang env st
           = (Thrown (new_error UserTimeoutError None),
              on_channel (\<lambda>c. c\<lparr>sent := sent c
                 @ [Get_signing_certificate (origin parsed) (if truthy lang then lang else None)]\<rparr>) st)"
  using assms
  by (auto simp: sign_certificate_def andThen_def origin_of_def raced_def race_def send_def
        split: completion.splits)

text \<open>
  C3. On every path on which \<open>sign\<close> settles, \<open>close\<close> has been called exactly once on
  the native application held by the variable \<open>nativeAppService\<close>, which is the one
  constructed last, and on no other; when the constructor of the service threw, no
  native application was constructed. When the certificate request loses its race
  against the user-interaction timer, \<open>sign\<close> returns the failure with the serialized
  UserTimeoutError and the one native application has been closed once.
\<close>

theorem sign_closes:
  "(fst (sign P postPrepareSigningUrl postFinalizeSigningUrl getCorsConfigUrl headers'
           userInteractionTimeout serverRequestTimeout sender lang env) \<noteq> Pending
      \<longrightarrow> (case nativeAppService (snd (sign P postPrepareSigningUrl postFinalizeSigningUrl
                  getCorsConfigUrl headers' userInteractionTimeout serverRequestTimeout sender lang env)) of
              None \<Rightarrow>
                channels (snd (sign P postPrepareSigningUrl postFinalizeSigningUrl
                  getCorsConfigUrl headers' userInteractionTimeout serverRequestTimeout sender lang env)) = []
            | Some i \<Rightarrow>
                map close_calls (channels (snd (sign P postPrepareSigningUrl postFinalizeSigningUrl
                  getCorsConfigUrl headers' userInteractionTimeout serverRequestTimeout sender lang env)))
                  = replicate i 0 @ [1]))
   \<and> (sign_connect P getCorsConfigUrl sender env initial_state = (Returned nativeAppStatus, st)
        \<and> new_URL P postPrepareSigningUrl None = Some parsed
        \<and> (certificate_timer_first env \<or> certificate_reply env = Pending)
      \<longrightarrow> fst (sign P postPrepareSigningUrl postFinalizeSigningUrl getCorsConfigUrl headers'
                 userInteractionTimeout serverRequestTimeout sender lang env)
            = Returned \<lparr>action = SIGN_FAILURE, result_response = None,
                result_error = Some (serializeError P (new_error UserTimeoutError None))\<rparr>
          \<and> nativeAppService (snd (sign P postPrepareSigningUrl postFinalizeSigningUrl
                 getCorsConfigUrl headers' userInteractionTimeout serverRequestTimeout sender lang env))
            = Some 0
          \<and> map close_calls (channels (snd (sign P postPrepareSigningUrl postFinalizeSigningUrl
                 getCorsConfigUrl headers' userInteractionTimeout serverRequestTimeout sender lang env)))
            = [1])"
proof (intro conjI impI)
  let ?block = "sign_try P postPrepareSigningUrl postFinalizeSigningUrl getCorsConfigUrl headers'
                sender lang env initial_state"
  let ?sign = "sign P postPrepareSigningUrl postFinalizeSigningUrl getCorsConfigUrl headers'
                 userInteractionTimeout serverRequestTimeout sender lang env"
  obtain settled st' where t: "?block = (settled, st')" by (cases ?block)
  from keeps_sign_try [of P postPrepareSigningUrl postFinalizeSigningUrl getCorsConfigUrl headers'
      sender lang env] held_unclosed_initial t
  have h: "held_unclosed st'" by (auto simp: keeps_def)
  {
    assume "fst ?sign \<noteq> Pending"
    with t have s: "snd ?sign = close st'"
      by (cases settled) (simp_all add: sign_def)
    show "case nativeAppService (snd ?sign) of
            None \<Rightarrow> channels (snd ?sign) = []
          | Some i \<Rightarrow> map close_calls (channels (snd ?sign)) = replicate i 0 @ [1]"
      using close_held_unclosed [OF h] s
      by (cases "nativeAppService st'") simp_all
  }
  {
    assume a: "sign_connect P getCorsConfigUrl sender env initial_state = (Returned nativeAppStatus, st)
        \<and> new_URL P postPrepareSigningUrl None = Some parsed
        \<and> (certificate_timer_first env \<or> certificate_reply env = Pending)"
    from a sign_connect_returned [of P getCorsConfigUrl sender env nativeAppStatus st]
    have held: "nativeAppService st = Some 0" and closed: "map close_calls (channels st) = [0]"
      by simp_all
    from a sign_certificate_late [OF held, of P postPrepareSigningUrl parsed env lang]
    obtain st1 where c: "sign_certificate P postPrepareSigningUrl lang env st
                           = (Thrown (new_error UserTimeoutError None), st1)"
      and st1: "st1 = on_channel (\<lambda>c. c\<lparr>sent := sent c
                 @ [Get_signing_certificate (origin parsed) (if truthy lang then lang else None)]\<rparr>) st"
      by simp
    from a c have t': "?block = (Thrown (new_error UserTimeoutError None), st1)"
      by (simp add: sign_try_def sign_until_signature_def andThen_def)
    then show "fst ?sign = Returned \<lparr>action = SIGN_FAILURE, result_response = None,
                result_error = Some (serializeError P (new_error UserTimeoutError None))\<rparr>"
      by (simp add: sign_def)
    from held st1 have held1: "nativeAppService st1 = Some 0"
      by (simp add: on_channel_def)
    from t' have s: "snd ?sign = close st1" by (simp add: sign_def)
    from t t' h have h1: "held_unclosed st1" by simp
    from close_held_unclosed(1) [OF h1] held1 s
    show "nativeAppService (snd ?sign) = Some 0" by simp
    from close_held_unclosed(3) [OF h1 held1] s
    show "map close_calls (channels (snd ?sign)) = [1]" by simp
  }
qed

theorem sign_closes_witness:
  "fst (run_sign (world False (Returned ''2.0.0'') 400)) \<noteq> Pending
   \<and> nativeAppService (snd (run_sign (world False (Returned ''2.0.0'') 400))) = Some 1
   \<and> map close_calls (channels (snd (run_sign (world False (Returned ''2.0.0'') 400)))) = [0, 1]
   \<and> certificate_timer_first (world True (Returned ''2.0.0'') 200)
   \<and> fst (run_sign (world True (Returned ''2.0.0'') 200))
       = Returned \<lparr>action = SIGN_FAILURE, result_response = None,
           result_error = Some (UserTimeoutError, None, None)\<rparr>
   \<and> nativeAppService (snd (run_sign (world True (Returned ''2.0.0'') 200))) = Some 0
   \<and> map close_calls (channels (snd (run_sign (world True (Returned ''2.0.0'') 200)))) = [1]"
proof -
  let ?rejected = "world False (Returned ''2.0.0'') 400"
  let ?late = "world True (Returned ''2.0.0'') 200"
  have a: "fst (run_sign ?rejected) \<noteq> Pending"
    and b: "nativeAppService (snd (run_sign ?rejected)) = Some 1"
    by (simp_all add: run_sign_def sign_eval fetch_eval example_defs URL_reference_eval)
  from sign_closes [where P = example_platform and env = ?rejected, THEN conjunct1, THEN mp,
      OF a [unfolded run_sign_def]] b
  have c: "map close_calls (channels (snd (run_sign ?rejected))) = [0, 1]"
    by (simp add: run_sign_def)
  have d: "sign_connect example_platform None (''https://a.example/page'', 7) ?late initial_state
             = (Returned ''2.0.0'',
                \<lparr>webServerService = Some page, nativeAppService = Some 0,
                 channels = [\<lparr>connect_calls = 1, sent = [], close_calls = 0\<rparr>],
                 browser_calls = []\<rparr>)"
    by (simp add: sign_eval truthy_def example_defs URL_reference_eval)
  have e: "new_URL example_platform ''https://a.example/prepare'' None
             = Some \<lparr>href = ''https://a.example/prepare'', origin = ''https://a.example''\<rparr>"
    by (simp add: example_platform_def URL_reference_eval)
  have f: "certificate_timer_first ?late" by (simp add: world_def)
  from sign_closes [where P = example_platform and env = ?late
      and postPrepareSigningUrl = "''https://a.example/prepare''"
      and postFinalizeSigningUrl = "''https://a.example/finalize''"
      and getCorsConfigUrl = None and headers' = "[]" and userInteractionTimeout = 120000
      and serverRequestTimeout = 20000 and sender = "(''https://a.example/page'', 7)" and lang = None,
      THEN conjunct2, THEN mp, OF conjI [OF d conjI [OF e disjI1 [OF f]]]]
  have g: "fst (run_sign ?late)
       = Returned \<lparr>action = SIGN_FAILURE, result_response = None,
           result_error = Some (UserTimeoutError, None, None)\<rparr>
     \<and> nativeAppService (snd (run_sign ?late)) = Some 0
     \<and> map close_calls (channels (snd (run_sign ?late))) = [1]"
    by (simp add: run_sign_def example_platform_def new_error_def)
  from a b c f g show ?thesis by blast
qed

lemma sign_try_returned:
  assumes "sign_try P postPrepareSigningUrl postFinalizeSigningUrl getCorsConfigUrl headers'
             sender lang env st = (Returned result, st')"
  shows "action result = SIGN_SUCCESS \<and> result_error result = None
           \<and> result_response result \<noteq> None"
  using assms
  by (auto simp: sign_try_def sign_finalize_def andThen_def resolve_def
        split: prod.splits completion.splits)

text \<open>
  C4. \<open>sign\<close> never settles with an exception. An error thrown by a statement of the
  try block becomes the returned failure object, which carries the serialized error;
  every returned object is either the success object or such a failure object.
\<close>

theorem sign_catches:
  "fst (sign P postPrepareSigningUrl postFinalizeSigningUrl getCorsConfigUrl headers'
          userInteractionTimeout serverRequestTimeout sender lang env) \<noteq> Thrown e
   \<and> (sign_try P postPrepareSigningUrl postFinalizeSigningUrl getCorsConfigUrl headers'
         sender lang env initial_state = (Thrown e, st)
      \<longrightarrow> sign P postPrepareSigningUrl postFinalizeSigningUrl getCorsConfigUrl headers'
             userInteractionTimeout serverRequestTimeout sender lang env
           = (Returned \<lparr>action = SIGN_FAILURE, result_response = None,
                        result_error = Some (serializeError P e)\<rparr>,
              close st))
   \<and> (fst (sign P postPrepareSigningUrl postFinalizeSigningUrl getCorsConfigUrl headers'
              userInteractionTimeout serverRequestTimeout sender lang env) = Returned result
      \<longrightarrow> (action result = SIGN_SUCCESS \<and> result_error result = None
             \<and> result_response result \<noteq> None)
          \<or> (action result = SIGN_FAILURE \<and> result_response result = None
             \<and> (\<exists>caught. result_error result = Some (serializeError P caught)
                   \<and> fst (sign_try P postPrepareSigningUrl postFinalizeSigningUrl
                            getCorsConfigUrl headers' sender lang env initial_state)
                       = Thrown caught)))"
proof -
  let ?block = "sign_try P postPrepareSigningUrl postFinalizeSigningUrl getCorsConfigUrl headers'
                sender lang env initial_state"
  obtain settled st' where t: "?block = (settled, st')" by (cases ?block)
  show ?thesis
  proof (cases settled)
    case (Returned r)
    with t sign_try_returned [of P postPrepareSigningUrl postFinalizeSigningUrl getCorsConfigUrl
        headers' sender lang env initial_state r st']
    show ?thesis by (auto simp: sign_def)
  next
    case (Thrown caught)
    with t show ?thesis by (auto simp: sign_def)
  next
    case Pending
    with t show ?thesis by (simp add: sign_def)
  qed
qed

theorem sign_catches_witness:
  "sign_try example_platform ''https://a.example/prepare'' ''https://a.example/finalize'' None []
     (''https://a.example/page'', 7) None (world False (Thrown native_unavailable) 200) initial_state
     = (Thrown native_unavailable,
        \<lparr>webServerService = Some page, nativeAppService = Some 0,
         channels = [\<lparr>connect_calls = 1, sent = [], close_calls = 0\<rparr>],
         browser_calls = []\<rparr>)
   \<and> run_sign (world False (Thrown native_unavailable) 200)
     = (Returned \<lparr>action = SIGN_FAILURE, result_response = None,
          result_error = Some (serializeError example_platform native_unavailable)\<rparr>,
        \<lparr>webServerService = Some page, nativeAppService = Some 0,
         channels = [\<lparr>connect_calls = 1, sent = [], close_calls = 1\<rparr>],
         browser_calls = []\<rparr>)
   \<and> fst (run_sign (world False (Returned ''2.0.0'') 200))
     = Returned \<lparr>action = SIGN_SUCCESS, result_response = Some (relayed 200), result_error = None\<rparr>
   \<and> action \<lparr>action = SIGN_SUCCESS, result_response = Some (relayed 200),
         result_error = (None :: serialized_error option)\<rparr> = SIGN_SUCCESS"
proof -
  have a: "sign_try example_platform ''https://a.example/prepare'' ''https://a.example/finalize'' None []
     (''https://a.example/page'', 7) None (world False (Thrown native_unavailable) 200) initial_state
     = (Thrown native_unavailable,
        \<lparr>webServerService = Some page, nativeAppService = Some 0,
         channels = [\<lparr>connect_calls = 1, sent = [], close_calls = 0\<rparr>],
         browser_calls = []\<rparr>)"
    by (simp add: sign_eval truthy_def example_defs URL_reference_eval)
  from sign_catches [where userInteractionTimeout = 120000 and serverRequestTimeout = 20000,
      THEN conjunct2, THEN conjunct1, THEN mp, OF a]
  have b: "run_sign (world False (Thrown native_unavailable) 200)
     = (Returned \<lparr>action = SIGN_FAILURE, result_response = None,
          result_error = Some (serializeError example_platform native_unavailable)\<rparr>,
        \<lparr>webServerService = Some page, nativeAppService = Some 0,
         channels = [\<lparr>connect_calls = 1, sent = [], close_calls = 1\<rparr>],
         browser_calls = []\<rparr>)"
    by (simp add: run_sign_def close_def on_channel_def)
  have c: "fst (run_sign (world False (Returned ''2.0.0'') 200))
     = Returned \<lparr>action = SIGN_SUCCESS, result_response = Some (relayed 200), result_error = None\<rparr>"
    by (simp add: run_sign_def sign_eval fetch_eval example_defs URL_reference_eval)
  from sign_catches [where P = example_platform and env = "world False (Returned ''2.0.0'') 200",
      THEN conjunct2, THEN conjunct2, THEN mp, OF c [unfolded run_sign_def]]
  have d: "action \<lparr>action = SIGN_SUCCESS, result_response = Some (relayed 200),
         result_error = (None :: serialized_error option)\<rparr> = SIGN_SUCCESS"
    by simp
  from a b c d show ?thesis by blast
qed

subsection \<open>Completion of a fetch\<close>

lemma fetch_settled:
  assumes "coerceOrigin URL (baseOrigin this) fetchUrl = (Inr coerced :: 'b error + string)"
    and "startsWith (toLocaleLowerCase coerced) ''https://''"
    and "sendMessage env = Returned response'"
  shows "fst (fetch URL this fetchUrl init (env :: 'b fetch_env))
           = (case fst (listen this env) of
                Some e \<Rightarrow>
                  Thrown (if ok response' then e else e\<lparr>response := Some (snapshot response')\<rparr>)
              | None \<Rightarrow>
                  if ok response' then Returned (with_certificateInfo None response')
                  else Thrown ((new_error ServerRejectedError None)
                                 \<lparr>response := Some (snapshot response')\<rparr>))"
  using assms by (simp add: fetch_def Let_def split: option.splits)

lemma sign_finalize_rejected:
  assumes "webServerService st = Some service"
    and "fst (fetch (new_URL P) service postFinalizeSigningUrl
                (Some (post_json headers' (Finalize_payload (body prepareDocumentResult) signature')))
                (finalize_fetch env)) = Thrown e"
    and "\<not> finalize_timer_first env"
  shows "fst (sign_finalize P postFinalizeSigningUrl headers' env prepareDocumentResult signature' st)
           = Thrown e"
  using assms
  by (auto simp: sign_finalize_def andThen_def raced_def race_def service_fetch_def
        split: prod.splits completion.splits)

text \<open>
  C7, as amended. When the relayed fetch resolves with a response: an error recorded by
  the listener is the error thrown by \<open>fetch\<close> (with the response snapshot added to it
  when the response is not \<open>ok\<close>); with no recorded error and a response that is not
  \<open>ok\<close>, \<open>fetch\<close> throws a ServerRejectedError carrying the snapshot of the
  response. In \<open>sign\<close>, when the statements up to the signature have succeeded and
  the finalize request is answered in time with status 400 and no recorded error, the
  result is the failure object with the serialized ServerRejectedError, which carries
  the snapshot of the 400 response.
\<close>

theorem fetch_completion:
  "(coerceOrigin URL (baseOrigin this) fetchUrl = (Inr coerced :: 'b error + string)
      \<and> startsWith (toLocaleLowerCase coerced) ''https://''
      \<and> sendMessage env = Returned response'
    \<longrightarrow> (fst (listen this env) = Some e
           \<longrightarrow> fst (fetch URL this fetchUrl init (env :: 'b fetch_env))
                 = Thrown (if ok response' then e
                           else e\<lparr>response := Some (snapshot response')\<rparr>))
        \<and> (fst (listen this env) = None \<and> \<not> ok response'
           \<longrightarrow> fst (fetch URL this fetchUrl init env)
                 = Thrown ((new_error ServerRejectedError None)
                             \<lparr>response := Some (snapshot response')\<rparr>)))
   \<and> (sign_until_signature P postPrepareSigningUrl getCorsConfigUrl headers' sender lang senv
         initial_state = (Returned (prepareDocumentResult, signature'), st)
      \<and> webServerService st = Some service
      \<and> coerceOrigin (new_URL P) (baseOrigin service) postFinalizeSigningUrl
           = (Inr coerced' :: 'c error + string)
      \<and> startsWith (toLocaleLowerCase coerced') ''https://''
      \<and> sendMessage (finalize_fetch senv) = Returned rejected
      \<and> status rejected = 400 \<and> \<not> ok rejected
      \<and> fst (listen service (finalize_fetch senv)) = None
      \<and> \<not> finalize_timer_first senv
    \<longrightarrow> fst (sign P postPrepareSigningUrl postFinalizeSigningUrl getCorsConfigUrl headers'
               userInteractionTimeout serverRequestTimeout sender lang (senv :: 'c sign_env))
          = Returned \<lparr>action = SIGN_FAILURE, result_response = None,
              result_error = Some (serializeError P
                ((new_error ServerRejectedError None)\<lparr>response := Some (snapshot rejected)\<rparr>))\<rparr>
        \<and> status (snapshot rejected) = 400)"
proof (intro conjI impI)
  assume a: "coerceOrigin URL (baseOrigin this) fetchUrl = (Inr coerced :: 'b error + string)
      \<and> startsWith (toLocaleLowerCase coerced) ''https://''
      \<and> sendMessage env = Returned response'"
  then have f: "fst (fetch URL this fetchUrl init env)
           = (case fst (listen this env) of
                Some e \<Rightarrow>
                  Thrown (if ok response' then e else e\<lparr>response := Some (snapshot response')\<rparr>)
              | None \<Rightarrow>
                  if ok response' then Returned (with_certificateInfo None response')
                  else Thrown ((new_error ServerRejectedError None)
                                 \<lparr>response := Some (snapshot response')\<rparr>))"
    using fetch_settled [of URL this fetchUrl coerced env response' init] by blast
  {
    assume "fst (listen this env) = Some e"
    with f show "fst (fetch URL this fetchUrl init env)
                 = Thrown (if ok response' then e
                           else e\<lparr>response := Some (snapshot response')\<rparr>)"
      by simp
  }
  {
    assume "fst (listen this env) = None \<and> \<not> ok response'"
    with f show "fst (fetch URL this fetchUrl init env)
                 = Thrown ((new_error ServerRejectedError None)
                             \<lparr>response := Some (snapshot response')\<rparr>)"
      by simp
  }
next
  let ?rejection = "(new_error ServerRejectedError None :: 'c error)\<lparr>response := Some (snapshot rejected)\<rparr>"
  assume a: "sign_until_signature P postPrepareSigningUrl getCorsConfigUrl headers' sender lang senv
         initial_state = (Returned (prepareDocumentResult, signature'), st)
      \<and> webServerService st = Some service
      \<and> coerceOrigin (new_URL P) (baseOrigin service) postFinalizeSigningUrl
           = (Inr coerced' :: 'c error + string)
      \<and> startsWith (toLocaleLowerCase coerced') ''https://''
      \<and> sendMessage (finalize_fetch senv) = Returned rejected
      \<and> status rejected = 400 \<and> \<not> ok rejected
      \<and> fst (listen service (finalize_fetch senv)) = None
      \<and> \<not> finalize_timer_first senv"
  from a fetch_settled [of "new_URL P" service postFinalizeSigningUrl coerced' "finalize_fetch senv"
      rejected "Some (post_json headers' (Finalize_payload (body prepareDocumentResult) signature'))"]
  have "fst (fetch (new_URL P) service postFinalizeSigningUrl
                (Some (post_json headers' (Finalize_payload (body prepareDocumentResult) signature')))
                (finalize_fetch senv)) = Thrown ?rejection"
    by simp
  with a sign_finalize_rejected [of st service P postFinalizeSigningUrl headers'
      prepareDocumentResult signature' senv ?rejection]
  have "fst (sign_finalize P postFinalizeSigningUrl headers' senv prepareDocumentResult signature' st)
          = Thrown ?rejection"
    by simp
  with a have "fst (sign_try P postPrepareSigningUrl postFinalizeSigningUrl getCorsConfigUrl headers'
                      sender lang senv initial_state) = Thrown ?rejection"
    by (simp add: sign_try_def andThen_def)
  then show "fst (sign P postPrepareSigningUrl postFinalizeSigningUrl getCorsConfigUrl headers'
               userInteractionTimeout serverRequestTimeout sender lang senv)
          = Returned \<lparr>action = SIGN_FAILURE, result_response = None,
              result_error = Some (serializeError P ?rejection)\<rparr>"
    by (auto simp: sign_def split: prod.splits completion.splits)
  from a show "status (snapshot rejected) = 400"
    by (simp add: snapshot_def)
qed

theorem fetch_completion_witness:
  "fst (listen page_with_cors (browser True ''AA'' [] (Returned (relayed 400))))
     = Some (new_error OriginMismatchError
         (Some ''website origin https://a.example does not match Access-Control-Allow-Origin: undefined''))
   \<and> fst (fetch URL_reference page_with_cors ''/x'' (None :: unit RequestInit option)
            (browser True ''AA'' [] (Returned (relayed 400))))
       = Thrown \<lparr>kind = OriginMismatchError,
           message = Some ''website origin https://a.example does not match Access-Control-Allow-Origin: undefined'',
           response = Some (relayed 400)\<rparr>
   \<and> fst (listen page (browser False ''AA'' [] (Returned (relayed 400)))) = None
   \<and> \<not> ok (relayed 400)
   \<and> fst (fetch URL_reference page ''/x'' (None :: unit RequestInit option)
            (browser False ''AA'' [] (Returned (relayed 400))))
       = Thrown \<lparr>kind = ServerRejectedError, message = None, response = Some (relayed 400)\<rparr>
   \<and> fst (sign_until_signature example_platform ''https://a.example/prepare'' None []
            (''https://a.example/page'', 7) None (world False (Returned ''2.0.0'') 400) initial_state)
       = Returned (with_certificateInfo None (relayed 200), ''c2ln'')
   \<and> status (relayed 400) = 400
   \<and> \<not> finalize_timer_first (world False (Returned ''2.0.0'') 400)
   \<and> fst (run_sign (world False (Returned ''2.0.0'') 400))
       = Returned \<lparr>action = SIGN_FAILURE, result_response = None,
           result_error = Some (ServerRejectedError, None, Some (relayed 400))\<rparr>"
proof -
  let ?mismatch = "new_error OriginMismatchError
         (Some ''website origin https://a.example does not match Access-Control-Allow-Origin: undefined'')
       :: json_object error"
  let ?w = "world False (Returned ''2.0.0'') 400"
  let ?until = "sign_until_signature example_platform ''https://a.example/prepare'' None []
            (''https://a.example/page'', 7) None ?w initial_state"
  have c1: "coerceOrigin URL_reference (baseOrigin page_with_cors) ''/x''
             = (Inr ''https://cors.example/x'' :: json_object error + string)"
    by (simp add: coerceOrigin_def baseOrigin_def truthy_def example_defs URL_reference_eval)
  have h1: "startsWith (toLocaleLowerCase ''https://cors.example/x'') ''https://''"
    by (simp add: startsWith_def toLocaleLowerCase_def toLowerChar_def)
  have s1: "sendMessage (browser True ''AA'' [] (Returned (relayed 400))) = Returned (relayed 400)"
    by (simp add: browser_def)
  have l1: "fst (listen page_with_cors (browser True ''AA'' [] (Returned (relayed 400)))) = Some ?mismatch"
    by (simp add: fetch_eval example_defs)
  have r: "\<not> ok (relayed 400)" "status (relayed 400) = 400" "snapshot (relayed 400) = relayed 400"
    by (simp_all add: relayed_def snapshot_def)
  from fetch_completion [where URL = URL_reference and init = "None :: unit RequestInit option",
      THEN conjunct1, THEN mp, OF conjI [OF c1 conjI [OF h1 s1]], THEN conjunct1, THEN mp, OF l1] r
  have a: "fst (fetch URL_reference page_with_cors ''/x'' (None :: unit RequestInit option)
            (browser True ''AA'' [] (Returned (relayed 400))))
       = Thrown \<lparr>kind = OriginMismatchError,
           message = Some ''website origin https://a.example does not match Access-Control-Allow-Origin: undefined'',
           response = Some (relayed 400)\<rparr>"
    by (simp add: new_error_def)
  have c2: "coerceOrigin URL_reference (baseOrigin page) ''/x''
             = (Inr ''https://a.example/x'' :: json_object error + string)"
    by (simp add: coerceOrigin_def baseOrigin_def truthy_def example_defs URL_reference_eval)
  have h2: "startsWith (toLocaleLowerCase ''https://a.example/x'') ''https://''"
    by (simp add: startsWith_def toLocaleLowerCase_def toLowerChar_def)
  have s2: "sendMessage (browser False ''AA'' [] (Returned (relayed 400))) = Returned (relayed 400)"
    by (simp add: browser_def)
  have l2: "fst (listen page (browser False ''AA'' [] (Returned (relayed 400)))) = None"
    by (simp add: fetch_eval example_defs)
  from fetch_completion [where URL = URL_reference and init = "None :: unit RequestInit option",
      THEN conjunct1, THEN mp, OF conjI [OF c2 conjI [OF h2 s2]], THEN conjunct2, THEN mp,
      OF conjI [OF l2 r(1)]] r
  have b: "fst (fetch URL_reference page ''/x'' (None :: unit RequestInit option)
            (browser False ''AA'' [] (Returned (relayed 400))))
       = Thrown \<lparr>kind = ServerRejectedError, message = None, response = Some (relayed 400)\<rparr>"
    by (simp add: new_error_def)
  have u: "fst ?until = Returned (with_certificateInfo None (relayed 200), ''c2ln'')"
    and v: "webServerService (snd ?until) = Some page"
    by (simp_all add: sign_eval fetch_eval example_defs URL_reference_eval)
  from u have u': "?until = (Returned (with_certificateInfo None (relayed 200), ''c2ln''), snd ?until)"
    by (cases ?until) simp
  have c3: "coerceOrigin (new_URL example_platform) (baseOrigin page) ''https://a.example/finalize''
             = (Inr ''https://a.example/finalize'' :: json_object error + string)"
    by (simp add: coerceOrigin_def baseOrigin_def truthy_def example_defs example_platform_def
          URL_reference_eval)
  have h3: "startsWith (toLocaleLowerCase ''https://a.example/finalize'') ''https://''"
    by (simp add: startsWith_def toLocaleLowerCase_def toLowerChar_def)
  have s3: "sendMessage (finalize_fetch ?w) = Returned (relayed 400)"
    by (simp add: world_def browser_def)
  have l3: "fst (listen page (finalize_fetch ?w)) = None"
    by (simp add: world_def fetch_eval example_defs)
  have t3: "\<not> finalize_timer_first ?w"
    by (simp add: world_def)
  from fetch_completion [where userInteractionTimeout = 120000 and serverRequestTimeout = 20000,
      THEN conjunct2, THEN mp,
      OF conjI [OF u' conjI [OF v conjI [OF c3 conjI [OF h3 conjI [OF s3
           conjI [OF r(2) conjI [OF r(1) conjI [OF l3 t3]]]]]]]]]
  have d: "fst (run_sign ?w)
       = Returned \<lparr>action = SIGN_FAILURE, result_response = None,
           result_error = Some (ServerRejectedError, None, Some (relayed 400))\<rparr>"
    by (simp add: run_sign_def example_platform_def new_error_def r)
  from l1 a l2 r b u t3 d show ?thesis by blast
qed

text \<open>
  The listener has recorded an OriginMismatchError and the relayed fetch is rejected:
  \<open>fetch\<close> throws the error of the rejection, not the recorded one.
\<close>

theorem fetch_completion_counterexample:
  "fst (listen page_with_cors (browser True ''AA'' [] (Thrown network_error)))
     = Some (new_error OriginMismatchError
         (Some ''website origin https://a.example does not match Access-Control-Allow-Origin: undefined''))
   \<and> fst (fetch URL_reference page_with_cors ''/x'' (None :: unit RequestInit option)
            (browser True ''AA'' [] (Thrown network_error)))
       = Thrown network_error
   \<and> kind network_error = TypeError"
  by (simp add: fetch_eval example_defs URL_reference_eval)

end
